theory Spec2Isabelle
  imports Complex_Main "HOL-Library.Word" "HOL-Library.AList" "HOL-Library.Multiset"
    "HOL-Library.Log_Nat"
begin

text \<open>
  A model of the temporary-mailbox worker: address generation, ingestion of a mail
  (\<open>handleNewEmail\<close>, \<open>saveEmail\<close>), listing (\<open>getEmails\<close>), clearing
  (\<open>clearEmails\<close>) and the retention sweep (\<open>clearAllEmails\<close>), over a D1 table
  threaded through the handlers as explicit state. Exceptions are values of a sum type;
  the clock and \<open>Math.random\<close> are parameters.
\<close>

section \<open>JavaScript strings\<close>

text \<open>
  A JavaScript string is a sequence of UTF-16 code units; \<open>length\<close>, \<open>slice\<close> and
  \<open>charAt\<close> count code units. Literals of the worker that are plain ASCII are written
  with \<open>ascii\<close>; its Chinese literals are given by their code units.
\<close>

type_synonym jsstring = "16 word list"

definition ascii :: "string \<Rightarrow> jsstring" where
  "ascii s = map of_char s"

text \<open>
  \<open>String.prototype.toLowerCase\<close>. On a string whose code units all lie in U+0000 to
  U+00FF the conversion is known in full: the letters A to Z and the Latin-1 capitals
  U+00C0 to U+00DE, except the multiplication sign U+00D7, move up by 32, and every
  other code unit stays. For a string with a code unit above U+00FF the result is
  what the platform's Unicode case conversion gives; that conversion is the parameter
  \<open>lc\<close>, of which nothing is assumed.
\<close>

definition lower_unit :: "16 word \<Rightarrow> 16 word" where
  "lower_unit c =
     (if (0x41 \<le> c \<and> c \<le> 0x5A) \<or> (0xC0 \<le> c \<and> c \<le> 0xDE \<and> c \<noteq> 0xD7)
      then c + 0x20 else c)"

definition toLowerCase :: "(jsstring \<Rightarrow> jsstring) \<Rightarrow> jsstring \<Rightarrow> jsstring" where
  "toLowerCase lc s = (if list_all (\<lambda>c. c \<le> 0xFF) s then map lower_unit s else lc s)"

text \<open>
  \<open>String.prototype.trim\<close> removes white space and line terminators from both ends:
  TAB, LF, VT, FF, CR, SPACE, NBSP, U+1680, U+2000 to U+200A, U+2028, U+2029, U+202F,
  U+205F, U+3000 and U+FEFF.
\<close>

definition is_white :: "16 word \<Rightarrow> bool" where
  "is_white c =
     (c \<in> set [0x9, 0xA, 0xB, 0xC, 0xD, 0x20, 0xA0, 0x1680, 0x2028, 0x2029, 0x202F,
                0x205F, 0x3000, 0xFEFF]
      \<or> (0x2000 \<le> c \<and> c \<le> 0x200A))"

definition trim :: "jsstring \<Rightarrow> jsstring" where
  "trim s = rev (dropWhile is_white (rev (dropWhile is_white s)))"

text \<open>\<open>s.charAt(i)\<close> is the empty string when \<open>i\<close> is out of range.\<close>

definition charAt :: "jsstring \<Rightarrow> int \<Rightarrow> jsstring" where
  "charAt s i = (if 0 \<le> i \<and> i < int (length s) then [s ! nat i] else [])"

text \<open>\<open>s.slice(0, n)\<close> for a non-negative \<open>n\<close>.\<close>

definition slice0 :: "jsstring \<Rightarrow> nat \<Rightarrow> jsstring" where
  "slice0 s n = take n s"

text \<open>
  The decimal digits of a non-negative integer, as \<open>toString\<close> and a template literal
  print it.
\<close>

fun toString_nat :: "nat \<Rightarrow> jsstring" where
  "toString_nat n =
     (if n < 10 then [of_nat (48 + n)]
      else toString_nat (n div 10) @ [of_nat (48 + n mod 10)])"

declare toString_nat.simps [simp del]

section \<open>JavaScript numbers\<close>

text \<open>
  A JavaScript number is an IEEE 754 binary64 value; a finite one is modelled by its
  exact rational value. The result of an arithmetic operation is the exact result
  rounded to the nearest double, a tie going to the even significand.
  \<open>round_double\<close> is that rounding, for the magnitudes that round to a finite
  double (those below \<open>2 ^ 1024 - 2 ^ 970\<close>):
  \<open>binade x\<close> is the integer \<open>e\<close> with \<open>2 ^ e \<le> x < 2 ^ (e + 1)\<close> for a positive
  \<open>x\<close>, found from the bit lengths of numerator and denominator; \<open>ulp x\<close> is the
  spacing of the doubles around \<open>x\<close>, which is \<open>2 ^ (e - 52)\<close> and never less than
  \<open>2 ^ - 1074\<close>; and \<open>x\<close> is rounded to the nearest multiple of \<open>ulp x\<close>.
  A rational is a double when rounding leaves it unchanged.
\<close>

definition round_half_even :: "rat \<Rightarrow> int" where
  "round_half_even t =
     (let f = \<lfloor>t\<rfloor>
      in if t - of_int f < 1 / 2 then f
         else if 1 / 2 < t - of_int f then f + 1
         else if even f then f else f + 1)"

definition binade :: "rat \<Rightarrow> int" where
  "binade x =
     (let p = fst (quotient_of x); q = snd (quotient_of x); d = bitlen p - bitlen q
      in if 2 powi d \<le> x then d else d - 1)"

definition ulp :: "rat \<Rightarrow> rat" where
  "ulp x = 2 powi (max (binade \<bar>x\<bar> - 52) (- 1074))"

definition round_double :: "rat \<Rightarrow> rat" where
  "round_double x = (if x = 0 then 0 else ulp x * of_int (round_half_even (x / ulp x)))"

definition is_double :: "rat \<Rightarrow> bool" where
  "is_double x = (round_double x = x)"

section \<open>JavaScript values and exceptions\<close>

text \<open>
  The values \<open>JSON.parse\<close> produces. \<open>JNum\<close> carries the exact value of the parsed
  double. An object is the list of its own properties in insertion order, with distinct
  keys. \<open>undefined\<close> is \<open>None\<close> of \<open>json option\<close>.
\<close>

datatype json =
    JNull
  | JBool bool
  | JNum rat
  | JStr jsstring
  | JArr "json list"
  | JObj "(jsstring \<times> json) list"

datatype js_error = JsError (err_name: string) (message: jsstring)

text \<open>Truthiness, as \<open>!x\<close>, \<open>x || y\<close> and \<open>x ? a : b\<close> test it.\<close>

fun truthy :: "json option \<Rightarrow> bool" where
  "truthy None = False"
| "truthy (Some JNull) = False"
| "truthy (Some (JBool b)) = b"
| "truthy (Some (JNum q)) = (q \<noteq> 0)"
| "truthy (Some (JStr s)) = (s \<noteq> [])"
| "truthy (Some (JArr xs)) = True"
| "truthy (Some (JObj kvs)) = True"

definition js_or :: "json option \<Rightarrow> json option \<Rightarrow> json option" where
  "js_or a b = (if truthy a then a else b)"

text \<open>
  Reading a property \<open>email.k\<close> of a parsed JSON value, for the keys the worker reads
  (from, to, subject, text, content): an object yields its own property or
  \<open>undefined\<close>, \<open>null\<close> throws a TypeError, and a boolean, number, string or array
  has no property of these names.
\<close>

fun get_prop :: "json \<Rightarrow> string \<Rightarrow> js_error + json option" where
  "get_prop JNull k =
     Inl (JsError ''TypeError''
            (ascii ''Cannot read properties of null (reading '' @ [0x27] @ ascii k @ [0x27]
               @ ascii '')''))"
| "get_prop (JObj kvs) k = Inr (map_of kvs (ascii k))"
| "get_prop x k = Inr None"

text \<open>The same read where the value is known not to be \<open>null\<close>.\<close>

fun read_prop :: "json \<Rightarrow> string \<Rightarrow> json option" where
  "read_prop (JObj kvs) k = map_of kvs (ascii k)"
| "read_prop x k = None"

text \<open>
  The assignment \<open>email.k = v\<close> on an object: an existing property keeps its place, a
  new one goes to the end. (The worker assigns only after three properties of \<open>email\<close>
  were found truthy, so \<open>email\<close> is an object there.)
\<close>

fun set_prop :: "json \<Rightarrow> string \<Rightarrow> json \<Rightarrow> json" where
  "set_prop (JObj kvs) k v = JObj (AList.update (ascii k) v kvs)"
| "set_prop x k v = x"

text \<open>
  The call \<open>v.toLowerCase()\<close> on a truthy value of a parsed JSON document: only a
  string has the method; on anything else the call throws a TypeError.
\<close>

fun call_toLowerCase :: "(jsstring \<Rightarrow> jsstring) \<Rightarrow> json option \<Rightarrow> js_error + jsstring" where
  "call_toLowerCase lc (Some (JStr s)) = Inr (toLowerCase lc s)"
| "call_toLowerCase lc x =
     Inl (JsError ''TypeError'' (ascii ''email.to.toLowerCase is not a function''))"

section \<open>Requests, responses and the environment\<close>

text \<open>
  The part of a request the worker reads: \<open>request.method\<close> (the field
  \<open>request_method\<close>), the path and the query parameters of its URL, and the outcome
  of \<open>request.json()\<close> (a rejection or the parsed value).
  \<open>URLSearchParams.get\<close> returns the first value of a name, or \<open>null\<close>.
\<close>

record request =
  request_method :: jsstring
  pathname :: jsstring
  searchParams :: "(jsstring \<times> jsstring) list"
  json_body :: "js_error + json"

definition searchParams_get :: "request \<Rightarrow> string \<Rightarrow> jsstring option" where
  "searchParams_get request k = map_of (searchParams request) (ascii k)"

text \<open>
  A response is its status and the value its body was made from (\<open>JSON.stringify\<close> of a
  value, a text, or no body). The CORS and cache headers are not modelled: they depend on
  nothing but the \<open>no_cache\<close> parameter and no property below is about them. Calls of
  \<open>logInfo\<close> and \<open>logError\<close> only write to the console and are left out.
\<close>

datatype body = JsonBody json | TextBody jsstring | NullBody

record response =
  status :: nat
  body :: body

definition json_response :: "nat \<Rightarrow> json \<Rightarrow> response" where
  "json_response st v = \<lparr>status = st, body = JsonBody v\<rparr>"

text \<open>
  The environment: the optional variable \<open>EMAIL_DOMAIN\<close> and the optional D1 binding
  \<open>DB\<close>. The binding is a handle; the database it leads to is the state the handlers
  take and return.
\<close>

datatype d1_binding = D1Database

record env =
  EMAIL_DOMAIN :: "jsstring option"
  DB :: "d1_binding option"

section \<open>The D1 database\<close>

text \<open>
  Modelled from the spec: the schema of table \<open>emails\<close> is not part of the source. A row
  has the columns the \<open>SELECT\<close> of \<open>getEmails\<close> reads: a store-assigned integer
  \<open>id\<close>, the text \<open>email_address\<close>, the integer \<open>received_at\<close> (milliseconds), and the
  nullable texts \<open>sender\<close>, \<open>subject\<close>, \<open>content\<close>, \<open>text_content\<close> and
  \<open>html_content\<close> (\<open>None\<close> is SQL \<open>NULL\<close>).
\<close>

record row =
  row_id :: nat
  email_address :: jsstring
  sender :: "jsstring option"
  subject :: "jsstring option"
  content :: "jsstring option"
  text_content :: "jsstring option"
  html_content :: "jsstring option"
  received_at :: int

text \<open>
  How the next statement behaves: it runs, it resolves with \<open>success\<close> false, or it
  rejects with an error. This is the "store reachable but the query failed" of the spec.
\<close>

datatype d1_fault = NoFault | Unsuccessful | Rejects jsstring

record database =
  emails :: "row list"
  next_id :: nat
  fault :: d1_fault

text \<open>The result object of \<open>stmt.all()\<close> and \<open>stmt.run()\<close>.\<close>

record d1_result =
  success :: bool
  results :: "row list"
  meta_changes :: "nat option"

definition d1_exec ::
  "database \<Rightarrow> (database \<Rightarrow> d1_result \<times> database) \<Rightarrow> (js_error + d1_result) \<times> database" where
  "d1_exec db stmt =
     (case fault db of
        NoFault \<Rightarrow> (case stmt db of (result, db') \<Rightarrow> (Inr result, db'))
      | Unsuccessful \<Rightarrow> (Inr \<lparr>success = False, results = [], meta_changes = None\<rparr>, db)
      | Rejects msg \<Rightarrow> (Inl (JsError ''Error'' msg), db))"

text \<open>
  \<open>SELECT ... FROM emails WHERE email_address = ? ORDER BY received_at DESC LIMIT 100\<close>.
  SQL leaves the order of rows with equal \<open>received_at\<close> open; the stable sort keeps
  them in table order.
\<close>

definition sql_select_by_address :: "jsstring \<Rightarrow> database \<Rightarrow> d1_result \<times> database" where
  "sql_select_by_address address db =
     (\<lparr>success = True,
       results = take 100 (sort_key (\<lambda>r. - received_at r)
                   (filter (\<lambda>r. email_address r = address) (emails db))),
       meta_changes = Some 0\<rparr>, db)"

text \<open>\<open>DELETE FROM emails WHERE email_address = ?\<close>\<close>

definition sql_delete_by_address :: "jsstring \<Rightarrow> database \<Rightarrow> d1_result \<times> database" where
  "sql_delete_by_address address db =
     (\<lparr>success = True, results = [],
       meta_changes = Some (length (filter (\<lambda>r. email_address r = address) (emails db)))\<rparr>,
      db\<lparr>emails := filter (\<lambda>r. \<not> email_address r = address) (emails db)\<rparr>)"

text \<open>\<open>DELETE FROM emails WHERE received_at < ?\<close>\<close>

definition sql_delete_older :: "int \<Rightarrow> database \<Rightarrow> d1_result \<times> database" where
  "sql_delete_older cutoffTime db =
     (\<lparr>success = True, results = [],
       meta_changes = Some (length (filter (\<lambda>r. received_at r < cutoffTime) (emails db)))\<rparr>,
      db\<lparr>emails := filter (\<lambda>r. \<not> received_at r < cutoffTime) (emails db)\<rparr>)"

text \<open>
  The record \<open>saveEmail\<close> binds to its \<open>INSERT\<close>. The source gives no definition of
  \<open>extractEmailData\<close>, so the type of its result is fixed here only to write down the
  statement that follows the call: the six values bound besides the clock.
\<close>

record email_data =
  data_to :: jsstring
  data_from :: "jsstring option"
  data_subject :: "jsstring option"
  data_text :: "jsstring option"
  data_html :: "jsstring option"
  data_raw :: "jsstring option"

text \<open>
  \<open>INSERT INTO emails (email_address, from_address, subject, text_content, html_content,
  received_at, raw_email) VALUES (?, ?, ?, ?, ?, ?, ?)\<close>. The statement names the columns
  \<open>from_address\<close> and \<open>raw_email\<close> where the \<open>SELECT\<close> reads \<open>sender\<close> and
  \<open>content\<close>; they are taken to be the same columns.
\<close>

definition sql_insert :: "email_data \<Rightarrow> int \<Rightarrow> database \<Rightarrow> d1_result \<times> database" where
  "sql_insert emailData now db =
     (\<lparr>success = True, results = [], meta_changes = Some 1\<rparr>,
      db\<lparr>emails := emails db @
            [\<lparr>row_id = next_id db, email_address = data_to emailData,
              sender = data_from emailData, subject = data_subject emailData,
              content = data_raw emailData, text_content = data_text emailData,
              html_content = data_html emailData, received_at = now\<rparr>],
         next_id := next_id db + 1\<rparr>)"

section \<open>The literals of the worker\<close>

text \<open>The Chinese string literals of the source, by UTF-16 code unit.\<close>

definition msg_missing_fields :: jsstring where
  \<comment> \<open>"a required mail field is missing"\<close>
  "msg_missing_fields = [0x7F3A, 0x5C11, 0x5FC5, 0x8981, 0x7684, 0x90AE, 0x4EF6, 0x5B57, 0x6BB5]"

definition msg_d1_not_configured :: jsstring where
  \<comment> \<open>"the D1 database is not configured"\<close>
  "msg_d1_not_configured = [0x44, 0x31, 0x6570, 0x636E, 0x5E93, 0x672A, 0x914D, 0x7F6E]"

definition msg_save_failed :: "jsstring \<Rightarrow> jsstring" where
  \<comment> \<open>"saving the mail failed: " followed by the error's message\<close>
  "msg_save_failed m = [0x4FDD, 0x5B58, 0x90AE, 0x4EF6, 0x5931, 0x8D25, 0x3A, 0x20] @ m"

definition msg_insert_failed :: jsstring where
  \<comment> \<open>"the database insert failed"\<close>
  "msg_insert_failed = [0x6570, 0x636E, 0x5E93, 0x63D2, 0x5165, 0x64CD, 0x4F5C, 0x5931, 0x8D25]"

definition msg_address_required :: jsstring where
  \<comment> \<open>"a mailbox address is required"\<close>
  "msg_address_required = [0x9700, 0x8981, 0x63D0, 0x4F9B, 0x90AE, 0x7BB1, 0x5730, 0x5740]"

definition msg_query_failed :: jsstring where
  \<comment> \<open>"the database query failed"\<close>
  "msg_query_failed = [0x6570, 0x636E, 0x5E93, 0x67E5, 0x8BE2, 0x5931, 0x8D25]"

definition msg_cannot_get_emails :: jsstring where
  \<comment> \<open>"cannot get the mails"\<close>
  "msg_cannot_get_emails = [0x65E0, 0x6CD5, 0x83B7, 0x53D6, 0x90AE, 0x4EF6]"

definition msg_no_content :: jsstring where
  \<comment> \<open>"no content", the placeholder of a preview\<close>
  "msg_no_content = [0x65E0, 0x5185, 0x5BB9]"

definition msg_delete_failed :: jsstring where
  \<comment> \<open>"the database delete failed"\<close>
  "msg_delete_failed = [0x6570, 0x636E, 0x5E93, 0x5220, 0x9664, 0x64CD, 0x4F5C, 0x5931, 0x8D25]"

definition msg_deleted :: "nat \<Rightarrow> jsstring" where
  \<comment> \<open>"deleted N mails"\<close>
  "msg_deleted deletedCount =
     [0x6210, 0x529F, 0x5220, 0x9664, 0x20] @ toString_nat deletedCount
       @ [0x20, 0x5C01, 0x90AE, 0x4EF6]"

definition msg_clear_failed :: jsstring where
  \<comment> \<open>"clearing the mails failed"\<close>
  "msg_clear_failed = [0x6E05, 0x7A7A, 0x90AE, 0x4EF6, 0x5931, 0x8D25]"

definition msg_deleted_expired :: "nat \<Rightarrow> jsstring" where
  \<comment> \<open>"deleted N expired mails"\<close>
  "msg_deleted_expired deletedCount =
     [0x6210, 0x529F, 0x5220, 0x9664, 0x20] @ toString_nat deletedCount
       @ [0x20, 0x5C01, 0x8FC7, 0x671F, 0x90AE, 0x4EF6]"

definition msg_clear_expired_failed :: jsstring where
  \<comment> \<open>"clearing the expired mails failed"\<close>
  "msg_clear_expired_failed = [0x6E05, 0x7A7A, 0x8FC7, 0x671F, 0x90AE, 0x4EF6, 0x5931, 0x8D25]"

definition msg_server_config :: jsstring where
  \<comment> \<open>"server configuration error"\<close>
  "msg_server_config = [0x670D, 0x52A1, 0x5668, 0x914D, 0x7F6E, 0x9519, 0x8BEF]"

section \<open>The handlers\<close>

text \<open>
  A handler that lower-cases a string takes the platform's case conversion \<open>lc\<close> as
  its first argument and passes it to \<open>toLowerCase\<close>.
\<close>

subsection \<open>generateEmailAddress\<close>

text \<open>
  \<open>Math.random\<close> is a parameter: \<open>rnd i\<close> is the value of the call in round \<open>i\<close>
  of the loop, a double at least 0 and below 1. The product
  \<open>Math.random() * chars.length\<close> is a multiplication of doubles, hence rounded, and
  \<open>Math.floor\<close> is applied to the rounded product.
\<close>

definition chars :: jsstring where
  "chars = ascii ''abcdefghijklmnopqrstuvwxyz0123456789''"

function username_loop :: "(nat \<Rightarrow> rat) \<Rightarrow> nat \<Rightarrow> jsstring \<Rightarrow> jsstring" where
  "username_loop rnd i username =
     (if i < 8
      then username_loop rnd (i + 1)
             (username @ charAt chars \<lfloor>round_double (rnd i * of_nat (length chars))\<rfloor>)
      else username)"
  by pat_completeness auto
termination
  by (relation "measure (\<lambda>(rnd, i, username). 8 - i)") auto

declare username_loop.simps [simp del]

definition generateEmailAddress :: "env \<Rightarrow> (nat \<Rightarrow> rat) \<Rightarrow> jsstring" where
  "generateEmailAddress env rnd =
     (let username = username_loop rnd 0 [];
          domain = (case EMAIL_DOMAIN env of
                      Some d \<Rightarrow> if d \<noteq> [] then d else ascii ''777.xyz''
                    | None \<Rightarrow> ascii ''777.xyz'')
      in username @ ascii ''@'' @ domain)"

subsection \<open>saveEmail\<close>

text \<open>
  \<open>extractEmailData\<close> is called by \<open>saveEmail\<close> and is declared nowhere: the worker
  is one module without imports. Evaluating the call throws a ReferenceError.
\<close>

definition extractEmailData :: "json \<Rightarrow> js_error + email_data" where
  "extractEmailData email =
     Inl (JsError ''ReferenceError'' (ascii ''extractEmailData is not defined''))"

definition saveEmail :: "env \<Rightarrow> json \<Rightarrow> int \<Rightarrow> database \<Rightarrow> (js_error + bool) \<times> database" where
  "saveEmail env email now db =
     (case extractEmailData email of
        Inl error \<Rightarrow> (Inl error, db)
      | Inr emailData \<Rightarrow>
          if DB env = None then (Inl (JsError ''Error'' msg_d1_not_configured), db)
          else (case d1_exec db (sql_insert emailData now) of
                  (Inl error, db') \<Rightarrow> (Inl error, db')
                | (Inr result, db') \<Rightarrow>
                    if \<not> success result then (Inl (JsError ''Error'' msg_insert_failed), db')
                    else (Inr True, db')))"

subsection \<open>handleNewEmail\<close>

definition handleNewEmail ::
  "(jsstring \<Rightarrow> jsstring) \<Rightarrow> request \<Rightarrow> env \<Rightarrow> int \<Rightarrow> database \<Rightarrow> response \<times> database" where
  "handleNewEmail lc request env now db =
     (case json_body request of
        Inl error \<Rightarrow> (json_response 500 (JObj [(ascii ''error'', JStr (message error))]), db)
      | Inr email \<Rightarrow>
          (case get_prop email ''from'' of
             Inl error \<Rightarrow>
               (json_response 500 (JObj [(ascii ''error'', JStr (message error))]), db)
           | Inr email_from \<Rightarrow>
               if \<not> truthy email_from \<or> \<not> truthy (read_prop email ''to'')
                  \<or> \<not> truthy (read_prop email ''subject'')
               then (json_response 400 (JObj [(ascii ''error'', JStr msg_missing_fields)]), db)
               else
                 let email =
                       (if \<not> truthy (read_prop email ''text'')
                        then set_prop email ''text''
                               (case js_or (read_prop email ''content'') (Some (JStr [])) of
                                  Some v \<Rightarrow> v | None \<Rightarrow> JStr [])
                        else email)
                 in (case call_toLowerCase lc (read_prop email ''to'') of
                       Inl error \<Rightarrow>
                         (json_response 500 (JObj [(ascii ''error'', JStr (message error))]), db)
                     | Inr lowered \<Rightarrow>
                         let emailAddress = trim lowered
                         in if DB env = None
                            then (json_response 500
                                    (JObj [(ascii ''error'', JStr msg_d1_not_configured)]), db)
                            else (case saveEmail env email now db of
                                    (Inr saved, db') \<Rightarrow>
                                      (json_response 200 (JObj [(ascii ''success'', JBool True)]),
                                       db')
                                  | (Inl error, db') \<Rightarrow>
                                      (json_response 500
                                         (JObj [(ascii ''error'',
                                                 JStr (msg_save_failed (message error)))]),
                                       db')))))"

subsection \<open>getEmails\<close>

text \<open>
  One element of the listing. \<open>email.text || ''\<close> and \<open>email.html || ''\<close> turn
  \<open>NULL\<close> into the empty string; a \<open>NULL\<close> sender, subject or content is \<open>null\<close>.
  The preview is \<open>email.text ? email.text.slice(0, 100) : (email.subject || placeholder)\<close>.
\<close>

definition json_of_text :: "jsstring option \<Rightarrow> json" where
  "json_of_text v = (case v of None \<Rightarrow> JNull | Some s \<Rightarrow> JStr s)"

definition text_or :: "jsstring option \<Rightarrow> jsstring \<Rightarrow> jsstring" where
  \<comment> \<open>\<open>v || d\<close> on a nullable text: \<open>NULL\<close> and the empty string are falsy\<close>
  "text_or v d = (case v of None \<Rightarrow> d | Some s \<Rightarrow> if s \<noteq> [] then s else d)"

definition format_email :: "jsstring \<Rightarrow> row \<Rightarrow> json" where
  "format_email normalizedAddress email =
     JObj [(ascii ''id'', JStr (toString_nat (row_id email))),
           (ascii ''receivedAt'', JNum (of_int (received_at email))),
           (ascii ''from'', json_of_text (sender email)),
           (ascii ''to'', JStr normalizedAddress),
           (ascii ''subject'', json_of_text (subject email)),
           (ascii ''text'', JStr (text_or (text_content email) [])),
           (ascii ''html'', JStr (text_or (html_content email) [])),
           (ascii ''content'', json_of_text (content email)),
           (ascii ''preview'',
            JStr (case text_content email of
                    None \<Rightarrow> text_or (subject email) msg_no_content
                  | Some t \<Rightarrow>
                      if t \<noteq> [] then slice0 t 100
                      else text_or (subject email) msg_no_content))]"

definition getEmails ::
  "(jsstring \<Rightarrow> jsstring) \<Rightarrow> request \<Rightarrow> env \<Rightarrow> database \<Rightarrow> response \<times> database" where
  "getEmails lc request env db =
     (case searchParams_get request ''address'' of
        None \<Rightarrow> (json_response 400 (JObj [(ascii ''error'', JStr msg_address_required)]), db)
      | Some address \<Rightarrow>
          if address = []
          then (json_response 400 (JObj [(ascii ''error'', JStr msg_address_required)]), db)
          else
            let normalizedAddress = trim (toLowerCase lc address)
            in if DB env = None
               then (json_response 500 (JObj [(ascii ''error'', JStr msg_d1_not_configured)]), db)
               else (case d1_exec db (sql_select_by_address normalizedAddress) of
                       (Inl error, db') \<Rightarrow>
                         (json_response 500
                            (JObj [(ascii ''error'', JStr msg_cannot_get_emails),
                                   (ascii ''details'', JStr (message error))]), db')
                     | (Inr result, db') \<Rightarrow>
                         if \<not> success result
                         then (json_response 500
                                 (JObj [(ascii ''error'', JStr msg_cannot_get_emails),
                                        (ascii ''details'', JStr msg_query_failed)]), db')
                         else (json_response 200
                                 (JArr (map (format_email normalizedAddress) (results result))),
                               db')))"

subsection \<open>clearEmails lc and clearAllEmails\<close>

definition deleted_count :: "d1_result \<Rightarrow> nat" where
  \<comment> \<open>\<open>result.meta?.changes || 0\<close>\<close>
  "deleted_count result = (case meta_changes result of None \<Rightarrow> 0 | Some n \<Rightarrow> n)"

definition clearEmails ::
  "(jsstring \<Rightarrow> jsstring) \<Rightarrow> request \<Rightarrow> env \<Rightarrow> database \<Rightarrow> response \<times> database" where
  "clearEmails lc request env db =
     (case searchParams_get request ''address'' of
        None \<Rightarrow> (json_response 400 (JObj [(ascii ''error'', JStr msg_address_required)]), db)
      | Some address \<Rightarrow>
          if address = []
          then (json_response 400 (JObj [(ascii ''error'', JStr msg_address_required)]), db)
          else
            let normalizedAddress = trim (toLowerCase lc address)
            in if DB env = None
               then (json_response 500
                       (JObj [(ascii ''success'', JBool False),
                              (ascii ''error'', JStr msg_d1_not_configured)]), db)
               else (case d1_exec db (sql_delete_by_address normalizedAddress) of
                       (Inl error, db') \<Rightarrow>
                         (json_response 500
                            (JObj [(ascii ''success'', JBool False),
                                   (ascii ''error'', JStr msg_clear_failed),
                                   (ascii ''details'', JStr (message error))]), db')
                     | (Inr result, db') \<Rightarrow>
                         if \<not> success result
                         then (json_response 500
                                 (JObj [(ascii ''success'', JBool False),
                                        (ascii ''error'', JStr msg_clear_failed),
                                        (ascii ''details'', JStr msg_delete_failed)]), db')
                         else (json_response 200
                                 (JObj [(ascii ''success'', JBool True),
                                        (ascii ''message'',
                                         JStr (msg_deleted (deleted_count result)))]),
                               db')))"

text \<open>
  \<open>clearAllEmails\<close> never reads its request; the scheduled trigger passes \<open>null\<close>.
  \<open>now\<close> is the value of \<open>Date.now()\<close>.
\<close>

definition clearAllEmails ::
  "request option \<Rightarrow> env \<Rightarrow> int \<Rightarrow> database \<Rightarrow> response \<times> database" where
  "clearAllEmails request env now db =
     (if DB env = None
      then (json_response 500
              (JObj [(ascii ''success'', JBool False),
                     (ascii ''error'', JStr msg_d1_not_configured)]), db)
      else
        let cutoffTime = now - (24 * 60 * 60 * 1000)
        in (case d1_exec db (sql_delete_older cutoffTime) of
              (Inl error, db') \<Rightarrow>
                (json_response 500
                   (JObj [(ascii ''success'', JBool False),
                          (ascii ''error'', JStr msg_clear_expired_failed),
                          (ascii ''details'', JStr (message error))]), db')
            | (Inr result, db') \<Rightarrow>
                if \<not> success result
                then (json_response 500
                        (JObj [(ascii ''success'', JBool False),
                               (ascii ''error'', JStr msg_clear_expired_failed),
                               (ascii ''details'', JStr msg_delete_failed)]), db')
                else (json_response 200
                        (JObj [(ascii ''success'', JBool True),
                               (ascii ''message'',
                                JStr (msg_deleted_expired (deleted_count result)))]),
                      db')))"

subsection \<open>handleRequest lc and the scheduled trigger\<close>

definition handleOptions :: "request \<Rightarrow> response" where
  "handleOptions request = \<lparr>status = 200, body = NullBody\<rparr>"

definition handleRequest ::
  "(jsstring \<Rightarrow> jsstring) \<Rightarrow> request \<Rightarrow> env option \<Rightarrow> (nat \<Rightarrow> rat) \<Rightarrow> int \<Rightarrow> database
     \<Rightarrow> response \<times> database" where
  "handleRequest lc request env_opt rnd now db =
     (case env_opt of
        None \<Rightarrow> (json_response 500 (JObj [(ascii ''error'', JStr msg_server_config)]), db)
      | Some env \<Rightarrow>
          if request_method request = ascii ''OPTIONS'' then (handleOptions request, db)
          else if request_method request = ascii ''DELETE''
                  \<and> pathname request = ascii ''/emails/clear''
          then clearEmails lc request env db
          else if request_method request = ascii ''DELETE''
                  \<and> pathname request = ascii ''/emails/clear-all''
          then clearAllEmails (Some request) env now db
          else if pathname request = ascii ''/generate''
          then (json_response 200
                  (JObj [(ascii ''address'', JStr (generateEmailAddress env rnd))]), db)
          else if pathname request = ascii ''/emails'' then getEmails lc request env db
          else if pathname request = ascii ''/email'' then handleNewEmail lc request env now db
          else (\<lparr>status = 404, body = TextBody (ascii ''Not found'')\<rparr>, db))"

definition scheduled :: "env \<Rightarrow> int \<Rightarrow> database \<Rightarrow> database" where
  "scheduled env now db = snd (clearAllEmails None env now db)"

section \<open>The failure mode of an unconfigured store\<close>

text \<open>
  A response reports the store as not configured when its status is 500 and the
  \<open>error\<close> property of its body is the literal of the D1 check.
\<close>

definition unavailable_error :: "response \<Rightarrow> bool" where
  "unavailable_error r =
     (status r = 500
      \<and> (case body r of
            JsonBody v \<Rightarrow> read_prop v ''error'' = Some (JStr msg_d1_not_configured)
          | _ \<Rightarrow> False))"

section \<open>Example data\<close>

definition env0 :: env where
  "env0 = \<lparr>EMAIL_DOMAIN = Some (ascii ''foo.com''), DB = None\<rparr>"

text \<open>
  Eight draws of \<open>Math.random\<close>. The first is the double 0.6944444444444444, whose
  exact product with 36 lies just below 25 and is rounded to 25; the seventh is the
  largest double below 1.
\<close>

definition draws :: "rat list" where
  "draws = [3127499741229511 / 4503599627370496, 0, 1 / 8, 1 / 4, 1 / 2, 3 / 4,
            9007199254740991 / 9007199254740992, 7 / 8]"

definition rnd0 :: "nat \<Rightarrow> rat" where
  "rnd0 i = draws ! (i mod 8)"

definition req_gen :: request where
  "req_gen = \<lparr>request_method = ascii ''GET'', pathname = ascii ''/generate'',
               searchParams = [], json_body = Inr JNull\<rparr>"

definition env_db :: env where
  "env_db = \<lparr>EMAIL_DOMAIN = Some (ascii ''foo.com''), DB = Some D1Database\<rparr>"

definition db_empty :: database where
  "db_empty = \<lparr>emails = [], next_id = 1, fault = NoFault\<rparr>"

definition email_norm :: json where
  "email_norm = JObj [(ascii ''from'', JStr (ascii ''alice@example.org'')),
                      (ascii ''to'', JStr (ascii ''  User@Foo.com '')),
                      (ascii ''subject'', JStr (ascii ''hi''))]"

definition req_ingest :: "json \<Rightarrow> request" where
  "req_ingest email = \<lparr>request_method = ascii ''POST'', pathname = ascii ''/email'',
                       searchParams = [], json_body = Inr email\<rparr>"

definition req_list :: "jsstring \<Rightarrow> request" where
  "req_list address = \<lparr>request_method = ascii ''GET'', pathname = ascii ''/emails'',
                        searchParams = [(ascii ''address'', address)],
                        json_body = Inr JNull\<rparr>"

definition email_plain :: json where
  "email_plain = JObj [(ascii ''from'', JStr (ascii ''alice@example.org'')),
                       (ascii ''to'', JStr (ascii ''user@foo.com'')),
                       (ascii ''subject'', JStr (ascii ''hi''))]"

definition email_no_subject :: json where
  "email_no_subject = JObj [(ascii ''from'', JStr (ascii ''alice@example.org'')),
                            (ascii ''to'', JStr (ascii ''user@foo.com''))]"

definition email_hello :: json where
  "email_hello = JObj [(ascii ''from'', JStr (ascii ''alice@example.org'')),
                       (ascii ''to'', JStr (ascii ''user@foo.com'')),
                       (ascii ''subject'', JStr (ascii ''hi'')),
                       (ascii ''content'', JStr (ascii ''hello''))]"

definition now0 :: int where
  "now0 = 100000000"

definition row_old :: row where
  "row_old = \<lparr>row_id = 1, email_address = ascii ''user@foo.com'',
              sender = Some (ascii ''alice@example.org''), subject = Some (ascii ''first''),
              content = None, text_content = Some (ascii ''an old mail''), html_content = None,
              received_at = now0 - 25 * 3600000\<rparr>"

definition row_new :: row where
  "row_new = \<lparr>row_id = 2, email_address = ascii ''user@foo.com'',
              sender = Some (ascii ''bob@example.org''), subject = Some (ascii ''second''),
              content = None, text_content = None, html_content = None,
              received_at = now0 - 3600000\<rparr>"

definition db_faulty :: database where
  "db_faulty = \<lparr>emails = [row_old, row_new], next_id = 3,
                 fault = Rejects (ascii ''disk I/O error'')\<rparr>"

definition req_clear :: "jsstring \<Rightarrow> request" where
  "req_clear address = \<lparr>request_method = ascii ''DELETE'',
                         pathname = ascii ''/emails/clear'',
                         searchParams = [(ascii ''address'', address)],
                         json_body = Inr JNull\<rparr>"

definition row_blank :: row where
  "row_blank = \<lparr>row_id = 3, email_address = ascii ''other@foo.com'', sender = None,
                subject = None, content = None, text_content = None, html_content = None,
                received_at = now0 - 2 * 3600000\<rparr>"

definition row_long :: row where
  "row_long = \<lparr>row_id = 4, email_address = ascii ''other@foo.com'',
               sender = Some (ascii ''carol@example.org''), subject = Some (ascii ''third''),
               content = None, text_content = Some (replicate 120 0x78), html_content = None,
               received_at = now0 - 3 * 3600000\<rparr>"

definition db_four :: database where
  "db_four = \<lparr>emails = [row_old, row_new, row_blank, row_long], next_id = 5, fault = NoFault\<rparr>"

definition row_numbered :: "nat \<Rightarrow> row" where
  "row_numbered i = \<lparr>row_id = i, email_address = ascii ''user@foo.com'', sender = None,
                     subject = Some (ascii ''n''), content = None, text_content = None,
                     html_content = None, received_at = int i\<rparr>"

definition db_150 :: database where
  "db_150 = \<lparr>emails = map row_numbered [0..<150], next_id = 150, fault = NoFault\<rparr>"

text \<open>The elements of a listing that the rows above give.\<close>

definition item_old :: json where
  "item_old = JObj [(ascii ''id'', JStr (ascii ''1'')),
                    (ascii ''receivedAt'', JNum 10000000),
                    (ascii ''from'', JStr (ascii ''alice@example.org'')),
                    (ascii ''to'', JStr (ascii ''user@foo.com'')),
                    (ascii ''subject'', JStr (ascii ''first'')),
                    (ascii ''text'', JStr (ascii ''an old mail'')),
                    (ascii ''html'', JStr []),
                    (ascii ''content'', JNull),
                    (ascii ''preview'', JStr (ascii ''an old mail''))]"

definition item_new :: json where
  "item_new = JObj [(ascii ''id'', JStr (ascii ''2'')),
                    (ascii ''receivedAt'', JNum 96400000),
                    (ascii ''from'', JStr (ascii ''bob@example.org'')),
                    (ascii ''to'', JStr (ascii ''user@foo.com'')),
                    (ascii ''subject'', JStr (ascii ''second'')),
                    (ascii ''text'', JStr []),
                    (ascii ''html'', JStr []),
                    (ascii ''content'', JNull),
                    (ascii ''preview'', JStr (ascii ''second''))]"

definition item_blank :: json where
  "item_blank = JObj [(ascii ''id'', JStr (ascii ''3'')),
                      (ascii ''receivedAt'', JNum 92800000),
                      (ascii ''from'', JNull),
                      (ascii ''to'', JStr (ascii ''other@foo.com'')),
                      (ascii ''subject'', JNull),
                      (ascii ''text'', JStr []),
                      (ascii ''html'', JStr []),
                      (ascii ''content'', JNull),
                      (ascii ''preview'', JStr msg_no_content)]"

definition item_long :: json where
  "item_long = JObj [(ascii ''id'', JStr (ascii ''4'')),
                     (ascii ''receivedAt'', JNum 89200000),
                     (ascii ''from'', JStr (ascii ''carol@example.org'')),
                     (ascii ''to'', JStr (ascii ''other@foo.com'')),
                     (ascii ''subject'', JStr (ascii ''third'')),
                     (ascii ''text'', JStr (replicate 120 0x78)),
                     (ascii ''html'', JStr []),
                     (ascii ''content'', JNull),
                     (ascii ''preview'', JStr (replicate 100 0x78))]"

section \<open>Address generation\<close>

lemma chars_alphabet:
  "c \<in> set chars \<Longrightarrow> (0x61 \<le> c \<and> c \<le> 0x7A) \<or> (0x30 \<le> c \<and> c \<le> 0x39)"
  by (auto simp add: chars_def ascii_def)

lemma length_chars: "length chars = 36"
  by (simp add: chars_def ascii_def)

lemma round_half_even_nonneg: "0 \<le> t \<Longrightarrow> 0 \<le> round_half_even t"
  by (auto simp add: round_half_even_def Let_def)

lemma round_half_even_below:
  assumes "t < of_int n - 1 / 2"
  shows "round_half_even t \<le> n - 1"
proof -
  have "t < of_int n" using assms by linarith
  then have f: "\<lfloor>t\<rfloor> \<le> n - 1" by (simp add: floor_less_iff)
  show ?thesis
  proof (cases "\<lfloor>t\<rfloor> = n - 1")
    case True
    then have "t - of_int \<lfloor>t\<rfloor> < 1 / 2" using assms by simp
    then show ?thesis using True by (simp add: round_half_even_def Let_def)
  next
    case False
    then have "\<lfloor>t\<rfloor> + 1 \<le> n - 1" using f by linarith
    then show ?thesis by (auto simp add: round_half_even_def Let_def)
  qed
qed

lemma two_powi_bitlen:
  assumes "0 < p"
  shows "2 powi (bitlen p - 1) \<le> (of_int p :: rat)" and "(of_int p :: rat) < 2 powi bitlen p"
proof -
  have b: "1 \<le> bitlen p" using assms by (simp add: bitlen_alt_def)
  have "2 ^ nat (bitlen p - 1) \<le> p" and "p < 2 ^ nat (bitlen p)"
    using bitlen_bounds [OF assms] by simp_all
  then have "(of_int (2 ^ nat (bitlen p - 1)) :: rat) \<le> of_int p"
    and "(of_int p :: rat) < of_int (2 ^ nat (bitlen p))"
    by (simp_all only: of_int_le_iff of_int_less_iff)
  then show "2 powi (bitlen p - 1) \<le> (of_int p :: rat)"
    and "(of_int p :: rat) < 2 powi bitlen p"
    using b by (simp_all add: power_int_def)
qed

lemma binade_bounds:
  assumes "0 < x"
  shows "2 powi binade x \<le> x" and "x < 2 powi (binade x + 1)"
proof -
  obtain p q where pq: "quotient_of x = (p, q)" by (cases "quotient_of x")
  have q: "0 < q" using pq by (rule quotient_of_denom_pos)
  have x: "x = of_int p / of_int q" using pq by (rule quotient_of_div)
  have p: "0 < p" using assms q x by (simp add: zero_less_divide_iff)
  define d where "d = bitlen p - bitlen q"
  note P = two_powi_bitlen [OF p] and Q = two_powi_bitlen [OF q]
  have qpos: "(0::rat) < of_int q" using q by simp
  have lo: "2 powi (d - 1) \<le> x"
  proof -
    have "2 powi (d - 1) * (of_int q :: rat) \<le> 2 powi (d - 1) * 2 powi bitlen q"
      using Q(2) by (intro mult_left_mono) simp_all
    also have "\<dots> = 2 powi (bitlen p - 1)"
      by (simp add: d_def power_int_add [symmetric])
    also have "\<dots> \<le> of_int p" by (rule P(1))
    finally show ?thesis using qpos unfolding x by (simp add: pos_le_divide_eq)
  qed
  have hi: "x < 2 powi (d + 1)"
  proof -
    have "(of_int p :: rat) < 2 powi bitlen p" by (rule P(2))
    also have "\<dots> = 2 powi (d + 1) * 2 powi (bitlen q - 1)"
      by (simp add: d_def power_int_add [symmetric])
    also have "\<dots> \<le> 2 powi (d + 1) * of_int q"
      using Q(1) by (intro mult_left_mono) simp_all
    finally show ?thesis using qpos unfolding x by (simp add: pos_divide_less_eq)
  qed
  have b: "binade x = (if 2 powi d \<le> x then d else d - 1)"
    by (simp add: binade_def pq d_def Let_def)
  show "2 powi binade x \<le> x" using lo b by auto
  show "x < 2 powi (binade x + 1)" using hi b by (auto simp add: not_le)
qed

lemma binade_below:
  assumes "0 < x" and "x < 2 powi n"
  shows "binade x < n"
proof (rule ccontr)
  assume "\<not> binade x < n"
  then have "n \<le> binade x" by simp
  then have "(2::rat) powi n \<le> 2 powi binade x" by (intro power_int_increasing) simp_all
  then show False using binade_bounds(1) [OF assms(1)] assms(2) by linarith
qed

lemma binade_above:
  assumes "0 < x" and "2 powi n \<le> x"
  shows "n \<le> binade x"
proof (rule ccontr)
  assume "\<not> n \<le> binade x"
  then have "binade x + 1 \<le> n" by simp
  then have "(2::rat) powi (binade x + 1) \<le> 2 powi n" by (intro power_int_increasing) simp_all
  then show False using binade_bounds(2) [OF assms(1)] assms(2) by linarith
qed

lemma double_below_one:
  assumes "is_double r" and "0 \<le> r" and "r < 1"
  shows "r \<le> 1 - 1 / 2 ^ 53"
proof (cases "r < 1 / 2")
  case True
  then show ?thesis by simp
next
  case False
  then have h: "1 / 2 \<le> r" by simp
  then have pos: "0 < r" by simp
  have "binade r < 0" using pos assms(3) by (intro binade_below) simp_all
  moreover have "- 1 \<le> binade r" using pos h by (intro binade_above) simp_all
  ultimately have b: "binade r = - 1" by simp
  have u: "ulp r = 1 / 2 ^ 53"
    using pos by (simp add: ulp_def b power_int_minus field_simps)
  define n where "n = round_half_even (r / ulp r)"
  have eq: "round_double r = r" using assms(1) by (simp only: is_double_def)
  have "round_double r = ulp r * of_int n"
    using pos unfolding round_double_def n_def by simp
  then have "r = ulp r * of_int n" using eq by (simp only:)
  then have r: "r = of_int n / 2 ^ 53" unfolding u by simp
  have "(of_int n :: rat) < 2 ^ 53" using assms(3) unfolding r by (simp add: field_simps)
  then have "(of_int n :: rat) < of_int (2 ^ 53)" by simp
  then have "n < 2 ^ 53" by (simp only: of_int_less_iff)
  then have "n \<le> 2 ^ 53 - 1" by simp
  then have "(of_int n :: rat) \<le> of_int (2 ^ 53 - 1)" by (simp only: of_int_le_iff)
  then show ?thesis unfolding r by (simp add: field_simps)
qed

lemma ulp_below_64:
  assumes "0 < x" and "x < 64"
  shows "\<exists>j::nat. ulp x = 1 / (2 ^ 47 * 2 ^ j)"
proof -
  have "binade x < 6" using assms by (intro binade_below) simp_all
  then have k: "max (binade x - 52) (- 1074) \<le> - 47" by simp
  define j where "j = nat (- 47 - max (binade x - 52) (- 1074))"
  have e: "max (binade x - 52) (- 1074) = - int (47 + j)" using k by (simp add: j_def)
  have "ulp x = 2 powi (- int (47 + j))"
    using assms(1) unfolding ulp_def e [symmetric] by simp
  also have "\<dots> = 1 / (2 ^ 47 * 2 ^ j)"
    by (simp only: power_int_minus power_int_of_nat power_add inverse_eq_divide)
  finally show ?thesis by blast
qed

lemma round_double_product:
  assumes "0 \<le> x" and "x \<le> 36 - 36 / 2 ^ 53"
  shows "0 \<le> round_double x" and "round_double x < 36"
proof -
  have both: "0 \<le> round_double x \<and> round_double x < 36"
  proof (cases "x = 0")
    case True
    then show ?thesis by (simp add: round_double_def)
  next
    case False
    then have pos: "0 < x" using assms(1) by simp
    have "x < 64" using assms(2) by simp
    then obtain j :: nat where u: "ulp x = 1 / (2 ^ 47 * 2 ^ j)"
      using ulp_below_64 [OF pos] by blast
    define N :: int where "N = 36 * 2 ^ 47 * 2 ^ j"
    define t where "t = x / ulp x"
    have t: "t = x * 2 ^ 47 * 2 ^ j" by (simp add: t_def u)
    have j1: "(1::rat) \<le> 2 ^ j" by simp
    have "t \<le> (36 - 36 / 2 ^ 53) * 2 ^ 47 * 2 ^ j"
      unfolding t using assms(2) by (intro mult_right_mono) simp_all
    also have "\<dots> = of_int N - 9 / 16 * 2 ^ j" by (simp add: N_def field_simps)
    also have "\<dots> < of_int N - 1 / 2" using j1 by linarith
    finally have "round_half_even t \<le> N - 1" by (rule round_half_even_below)
    then have "(of_int (round_half_even t) :: rat) \<le> of_int (N - 1)"
      by (simp only: of_int_le_iff)
    then have le: "(of_int (round_half_even t) :: rat) \<le> of_int N - 1" by simp
    have "0 \<le> t" using pos by (simp add: t)
    then have "0 \<le> round_half_even t" by (rule round_half_even_nonneg)
    then have ge: "(0::rat) \<le> of_int (round_half_even t)" by simp
    have r0: "round_double x = ulp x * of_int (round_half_even t)"
      using False unfolding t_def round_double_def by simp
    have r: "round_double x = of_int (round_half_even t) / (2 ^ 47 * 2 ^ j)"
      unfolding r0 u by simp
    have "round_double x \<le> (of_int N - 1) / (2 ^ 47 * 2 ^ j)"
      unfolding r using le by (intro divide_right_mono) simp_all
    also have "\<dots> = 36 - 1 / (2 ^ 47 * 2 ^ j)" by (simp add: N_def field_simps)
    also have "\<dots> < 36" by simp
    finally have "round_double x < 36" .
    moreover have "0 \<le> round_double x" unfolding r using ge by simp
    ultimately show ?thesis by simp
  qed
  show "0 \<le> round_double x" and "round_double x < 36" using both by simp_all
qed

lemma random_index:
  assumes "is_double r" and "0 \<le> r" and "r < 1"
  shows "0 \<le> \<lfloor>round_double (r * 36)\<rfloor>" and "\<lfloor>round_double (r * 36)\<rfloor> < 36"
proof -
  have "r \<le> 1 - 1 / 2 ^ 53" using assms by (rule double_below_one)
  then have a: "r * 36 \<le> 36 - 36 / 2 ^ 53" by simp
  have b: "0 \<le> r * 36" using assms(2) by simp
  show "0 \<le> \<lfloor>round_double (r * 36)\<rfloor>" using round_double_product(1) [OF b a] by simp
  show "\<lfloor>round_double (r * 36)\<rfloor> < 36"
    using round_double_product(2) [OF b a] by (simp add: floor_less_iff)
qed

lemma charAt_random:
  assumes "is_double r" and "0 \<le> r" and "r < 1"
  shows "\<exists>c \<in> set chars.
           charAt chars \<lfloor>round_double (r * of_nat (length chars))\<rfloor> = [c]"
proof -
  have lo: "0 \<le> \<lfloor>round_double (r * 36)\<rfloor>" using assms by (rule random_index(1))
  have hi: "\<lfloor>round_double (r * 36)\<rfloor> < 36" using assms by (rule random_index(2))
  have "nat \<lfloor>round_double (r * 36)\<rfloor> < length chars"
    using lo hi unfolding length_chars by linarith
  then have m: "chars ! nat \<lfloor>round_double (r * 36)\<rfloor> \<in> set chars" by (rule nth_mem)
  have "charAt chars \<lfloor>round_double (r * of_nat (length chars))\<rfloor>
          = [chars ! nat \<lfloor>round_double (r * 36)\<rfloor>]"
    using lo hi by (simp add: charAt_def length_chars)
  with m show ?thesis by blast
qed

lemma username_loop_shape:
  assumes "\<forall>i. is_double (rnd i) \<and> 0 \<le> rnd i \<and> rnd i < 1"
  shows "i \<le> 8 \<Longrightarrow> \<exists>u. username_loop rnd i username = username @ u \<and> length u = 8 - i
            \<and> set u \<subseteq> set chars"
  using assms
proof (induction rnd i username rule: username_loop.induct)
  case (1 rnd i username)
  show ?case
  proof (cases "i < 8")
    case True
    obtain c where c: "c \<in> set chars"
        "charAt chars \<lfloor>round_double (rnd i * of_nat (length chars))\<rfloor> = [c]"
      using charAt_random [of "rnd i"] 1(3) by blast
    from 1(1) [OF True] True 1(3)
    obtain u where u: "username_loop rnd (i + 1) (username @ [c]) = (username @ [c]) @ u"
        "length u = 8 - (i + 1)" "set u \<subseteq> set chars"
      using c(2) by auto
    have "username_loop rnd i username = username @ (c # u)"
      using True c(2) u(1) by (subst username_loop.simps) simp
    moreover have "length (c # u) = 8 - i" using u(2) True by simp
    moreover have "set (c # u) \<subseteq> set chars" using u(3) c(1) by simp
    ultimately show ?thesis by blast
  next
    case False
    then show ?thesis using 1(2) by (simp add: username_loop.simps)
  qed
qed

text \<open>
  Claim C10. For a configured (non-empty) domain, and random draws that are doubles
  at least 0 and below 1, the generated address is eight code units, each a lower-case letter
  a to z or a digit 0 to 9, followed by \<open>@\<close> and the domain. The function takes no
  database; the route \<open>/generate\<close> answers with that address and returns the database
  it was given.
\<close>

theorem generateEmailAddress_format:
  assumes "\<forall>i. is_double (rnd i) \<and> 0 \<le> rnd i \<and> rnd i < 1"
    and "EMAIL_DOMAIN env = Some domain" and "domain \<noteq> []"
    and "pathname request = ascii ''/generate''" and "request_method request \<noteq> ascii ''OPTIONS''"
  shows "\<exists>username.
           generateEmailAddress env rnd = username @ ascii ''@'' @ domain
           \<and> length username = 8
           \<and> (\<forall>c \<in> set username. (0x61 \<le> c \<and> c \<le> 0x7A) \<or> (0x30 \<le> c \<and> c \<le> 0x39))
           \<and> handleRequest lc request (Some env) rnd now db =
               (json_response 200 (JObj [(ascii ''address'', JStr (username @ ascii ''@'' @ domain))]),
                db)"
proof -
  obtain u where u: "username_loop rnd 0 [] = [] @ u" "length u = 8 - 0" "set u \<subseteq> set chars"
    using username_loop_shape [OF assms(1), of 0 "[]"] by auto
  have g: "generateEmailAddress env rnd = u @ ascii ''@'' @ domain"
    using u(1) assms(2,3) by (simp add: generateEmailAddress_def)
  have a: "\<forall>c \<in> set u. (0x61 \<le> c \<and> c \<le> 0x7A) \<or> (0x30 \<le> c \<and> c \<le> 0x39)"
    using u(3) chars_alphabet by blast
  have p: "ascii ''/generate'' \<noteq> ascii ''/emails/clear''"
      "ascii ''/generate'' \<noteq> ascii ''/emails/clear-all''"
    by (simp_all add: ascii_def)
  have "handleRequest lc request (Some env) rnd now db =
      (json_response 200 (JObj [(ascii ''address'', JStr (generateEmailAddress env rnd))]), db)"
    using assms(4,5) p by (simp add: handleRequest_def)
  then show ?thesis using g a u(2) by auto
qed

lemma draws_doubles: "list_all (\<lambda>r. is_double r \<and> 0 \<le> r \<and> r < 1) draws"
  by code_simp

lemma rnd0_range: "is_double (rnd0 i) \<and> 0 \<le> rnd0 i \<and> rnd0 i < 1"
proof -
  have "length draws = 8" by (simp add: draws_def)
  then have "rnd0 i \<in> set draws" unfolding rnd0_def by (intro nth_mem) simp
  then show ?thesis using draws_doubles by (simp add: list_all_iff)
qed

theorem generateEmailAddress_format_witness:
  "\<forall>lc.
   (\<forall>i. is_double (rnd0 i) \<and> 0 \<le> rnd0 i \<and> rnd0 i < 1)
   \<and> EMAIL_DOMAIN env0 = Some (ascii ''foo.com'') \<and> ascii ''foo.com'' \<noteq> []
   \<and> pathname req_gen = ascii ''/generate'' \<and> request_method req_gen \<noteq> ascii ''OPTIONS''
   \<and> (\<exists>username.
           generateEmailAddress env0 rnd0 = username @ ascii ''@'' @ ascii ''foo.com''
           \<and> length username = 8
           \<and> (\<forall>c \<in> set username. (0x61 \<le> c \<and> c \<le> 0x7A) \<or> (0x30 \<le> c \<and> c \<le> 0x39))
           \<and> handleRequest lc req_gen (Some env0) rnd0 0 \<lparr>emails = [], next_id = 1, fault = NoFault\<rparr> =
               (json_response 200 (JObj [(ascii ''address'', JStr (username @ ascii ''@'' @ ascii ''foo.com''))]),
                \<lparr>emails = [], next_id = 1, fault = NoFault\<rparr>))
   \<and> generateEmailAddress env0 rnd0 = ascii ''zaejs195@foo.com''
   \<and> \<lfloor>rnd0 0 * 36\<rfloor> = 24 \<and> \<lfloor>round_double (rnd0 0 * 36)\<rfloor> = 25"
  (is "\<forall>lc. ?W lc")
proof
  fix lc
  have h1: "\<forall>i. is_double (rnd0 i) \<and> 0 \<le> rnd0 i \<and> rnd0 i < 1" using rnd0_range by blast
  have h2: "EMAIL_DOMAIN env0 = Some (ascii ''foo.com'')" by (simp add: env0_def)
  have h3: "ascii ''foo.com'' \<noteq> []" by (simp add: ascii_def)
  have h4: "pathname req_gen = ascii ''/generate''" by (simp add: req_gen_def)
  have h5: "request_method req_gen \<noteq> ascii ''OPTIONS''" by (simp add: req_gen_def ascii_def)
  have e: "generateEmailAddress env0 rnd0 = ascii ''zaejs195@foo.com''"
    by code_simp
  have x: "\<lfloor>rnd0 0 * 36\<rfloor> = 24" by code_simp
  have y: "\<lfloor>round_double (rnd0 0 * 36)\<rfloor> = 25" by code_simp
  show "?W lc"
    using generateEmailAddress_format [OF h1 h2 h3 h4 h5, where lc = lc] h1 h2 h3 h4 h5 e x y
    by blast
qed

section \<open>Ingestion\<close>

lemma get_prop_read_prop: "email \<noteq> JNull \<Longrightarrow> get_prop email k = Inr (read_prop email k)"
  by (cases email) simp_all

lemma truthy_not_null: "truthy (read_prop email k) \<Longrightarrow> email \<noteq> JNull"
  by (cases email) auto

lemma saveEmail_throws:
  "saveEmail env email now db =
     (Inl (JsError ''ReferenceError'' (ascii ''extractEmailData is not defined'')), db)"
  by (simp add: saveEmail_def extractEmailData_def)

lemma handleNewEmail_state: "snd (handleNewEmail lc request env now db) = db"
  by (simp add: handleNewEmail_def saveEmail_throws Let_def split: sum.splits)

lemma handleNewEmail_status: "status (fst (handleNewEmail lc request env now db)) \<noteq> 200"
  by (simp add: handleNewEmail_def saveEmail_throws Let_def json_response_def split: sum.splits)

text \<open>
  Claim C3. For a parsed message (any JSON value but \<open>null\<close>) in which \<open>from\<close>,
  \<open>to\<close> or \<open>subject\<close> is absent, \<open>handleNewEmail\<close> answers 400 with the
  missing-field error and returns the database unchanged, whatever the environment; a
  listing made afterwards equals the listing made before.
\<close>

theorem handleNewEmail_missing_field:
  assumes "json_body request = Inr email" and "email \<noteq> JNull"
    and "read_prop email ''from'' = None \<or> read_prop email ''to'' = None
         \<or> read_prop email ''subject'' = None"
  shows "handleNewEmail lc request env now db =
           (json_response 400 (JObj [(ascii ''error'', JStr msg_missing_fields)]), db)
         \<and> getEmails lc list_request env (snd (handleNewEmail lc request env now db)) =
             getEmails lc list_request env db"
proof -
  have "\<not> truthy (read_prop email ''from'') \<or> \<not> truthy (read_prop email ''to'')
        \<or> \<not> truthy (read_prop email ''subject'')"
    using assms(3) by auto
  then have "handleNewEmail lc request env now db =
           (json_response 400 (JObj [(ascii ''error'', JStr msg_missing_fields)]), db)"
    using assms(1,2) by (simp add: handleNewEmail_def get_prop_read_prop)
  then show ?thesis by simp
qed

theorem handleNewEmail_missing_field_witness:
  "\<forall>lc.
   json_body (req_ingest email_no_subject) = Inr email_no_subject \<and> email_no_subject \<noteq> JNull
   \<and> read_prop email_no_subject ''subject'' = None
   \<and> handleNewEmail lc (req_ingest email_no_subject) env_db now0 db_four =
        (json_response 400 (JObj [(ascii ''error'', JStr msg_missing_fields)]), db_four)
   \<and> getEmails lc (req_list (ascii ''user@foo.com'')) env_db
        (snd (handleNewEmail lc (req_ingest email_no_subject) env_db now0 db_four)) =
      getEmails lc (req_list (ascii ''user@foo.com'')) env_db db_four" (is "\<forall>lc. ?W lc")
proof
  fix lc
  have h1: "json_body (req_ingest email_no_subject) = Inr email_no_subject"
    by (simp add: req_ingest_def)
  have h2: "email_no_subject \<noteq> JNull" by (simp add: email_no_subject_def)
  have h3: "read_prop email_no_subject ''subject'' = None"
    by (simp add: email_no_subject_def ascii_def)
  have h3': "read_prop email_no_subject ''from'' = None
             \<or> read_prop email_no_subject ''to'' = None
             \<or> read_prop email_no_subject ''subject'' = None"
    using h3 by simp
  show "?W lc"
    using handleNewEmail_missing_field [OF h1 h2 h3', where lc = lc and env = env_db and now = now0
        and db = db_four] h1 h2 h3
    by simp
qed

lemma read_prop_set_other:
  "ascii k \<noteq> ascii k' \<Longrightarrow> read_prop (set_prop email k v) k' = read_prop email k'"
  by (cases email) (simp_all add: update_conv')

lemma to_after_text: "read_prop (set_prop email ''text'' v) ''to'' = read_prop email ''to''"
  by (rule read_prop_set_other) (simp add: ascii_def)

lemma handleNewEmail_configured:
  assumes "json_body request = Inr email"
    and "truthy (read_prop email ''from'')" and "truthy (read_prop email ''to'')"
    and "truthy (read_prop email ''subject'')"
    and "DB env = Some D1Database"
  shows "handleNewEmail lc request env now db =
     (case call_toLowerCase lc (read_prop email ''to'') of
        Inl error \<Rightarrow> (json_response 500 (JObj [(ascii ''error'', JStr (message error))]), db)
      | Inr lowered \<Rightarrow>
          (json_response 500
             (JObj [(ascii ''error'',
                     JStr (msg_save_failed (ascii ''extractEmailData is not defined'')))]), db))"
proof -
  have n: "email \<noteq> JNull" using assms(2) by (rule truthy_not_null)
  show ?thesis
    using assms
    by (simp add: handleNewEmail_def get_prop_read_prop [OF n] saveEmail_throws Let_def
        to_after_text split: sum.splits)
qed

text \<open>
  Claim C2. For a message whose \<open>from\<close>, \<open>to\<close> and \<open>subject\<close> pass the field
  check, with the D1 binding present, \<open>handleNewEmail\<close> answers 500 and leaves the
  database as it was; when \<open>to\<close> is a string the body is the save-failure message
  carrying the ReferenceError of \<open>extractEmailData\<close>. No call of \<open>handleNewEmail\<close>
  whatsoever changes the database or answers 200.
\<close>

theorem handleNewEmail_never_succeeds:
  assumes "json_body request = Inr email"
    and "truthy (read_prop email ''from'')" and "truthy (read_prop email ''to'')"
    and "truthy (read_prop email ''subject'')"
    and "DB env = Some D1Database"
  shows "status (fst (handleNewEmail lc request env now db)) = 500
         \<and> snd (handleNewEmail lc request env now db) = db
         \<and> (\<forall>s. read_prop email ''to'' = Some (JStr s) \<longrightarrow>
               fst (handleNewEmail lc request env now db) =
                 json_response 500
                   (JObj [(ascii ''error'',
                           JStr (msg_save_failed (ascii ''extractEmailData is not defined'')))]))
         \<and> (\<forall>request' env' now' db'.
               snd (handleNewEmail lc request' env' now' db') = db'
               \<and> status (fst (handleNewEmail lc request' env' now' db')) \<noteq> 200)"
proof -
  note h = handleNewEmail_configured [OF assms, where lc = lc and now = now and db = db]
  have 1: "status (fst (handleNewEmail lc request env now db)) = 500"
    unfolding h by (simp add: json_response_def split: sum.splits)
  have 2: "\<forall>s. read_prop email ''to'' = Some (JStr s) \<longrightarrow>
               fst (handleNewEmail lc request env now db) =
                 json_response 500
                   (JObj [(ascii ''error'',
                           JStr (msg_save_failed (ascii ''extractEmailData is not defined'')))])"
    unfolding h by simp
  show ?thesis using 1 2 handleNewEmail_state handleNewEmail_status by blast
qed

theorem handleNewEmail_never_succeeds_witness:
  "\<forall>lc.
   json_body (req_ingest email_norm) = Inr email_norm
   \<and> truthy (read_prop email_norm ''from'') \<and> truthy (read_prop email_norm ''to'')
   \<and> truthy (read_prop email_norm ''subject'') \<and> DB env_db = Some D1Database
   \<and> read_prop email_norm ''to'' = Some (JStr (ascii ''  User@Foo.com ''))
   \<and> handleNewEmail lc (req_ingest email_norm) env_db 1000 db_empty =
        (json_response 500
           (JObj [(ascii ''error'',
                   JStr (msg_save_failed (ascii ''extractEmailData is not defined'')))]),
         db_empty)" (is "\<forall>lc. ?W lc")
proof
  fix lc
  have h1: "json_body (req_ingest email_norm) = Inr email_norm" by (simp add: req_ingest_def)
  have h2: "truthy (read_prop email_norm ''from'')" by (simp add: email_norm_def ascii_def)
  have h3: "truthy (read_prop email_norm ''to'')" by (simp add: email_norm_def ascii_def)
  have h4: "truthy (read_prop email_norm ''subject'')" by (simp add: email_norm_def ascii_def)
  have h5: "DB env_db = Some D1Database" by (simp add: env_db_def)
  have h6: "read_prop email_norm ''to'' = Some (JStr (ascii ''  User@Foo.com ''))"
    by (simp add: email_norm_def ascii_def)
  show "?W lc"
    using handleNewEmail_never_succeeds [OF h1 h2 h3 h4 h5, where lc = lc and now = 1000
        and db = db_empty] h1 h2 h3 h4 h5 h6
    by (metis prod.collapse)
qed

section \<open>The unconfigured store\<close>

lemma handleNewEmail_unconfigured:
  assumes "json_body request = Inr email"
    and "truthy (read_prop email ''from'')" and "read_prop email ''to'' = Some (JStr s)"
    and "s \<noteq> []" and "truthy (read_prop email ''subject'')"
    and "DB env = None"
  shows "handleNewEmail lc request env now db =
           (json_response 500 (JObj [(ascii ''error'', JStr msg_d1_not_configured)]), db)"
proof -
  have n: "email \<noteq> JNull" using assms(2) by (rule truthy_not_null)
  show ?thesis
    using assms
    by (simp add: handleNewEmail_def get_prop_read_prop [OF n] Let_def to_after_text)
qed

lemma handleNewEmail_configured_string:
  assumes "json_body request = Inr email"
    and "truthy (read_prop email ''from'')" and "read_prop email ''to'' = Some (JStr s)"
    and "s \<noteq> []" and "truthy (read_prop email ''subject'')"
    and "DB env \<noteq> None"
  shows "handleNewEmail lc request env now db =
           (json_response 500
             (JObj [(ascii ''error'',
                     JStr (msg_save_failed (ascii ''extractEmailData is not defined'')))]), db)"
proof -
  have n: "email \<noteq> JNull" using assms(2) by (rule truthy_not_null)
  obtain b where b: "DB env = Some b" using assms(6) by auto
  show ?thesis
    using assms(1-5) b
    by (simp add: handleNewEmail_def get_prop_read_prop [OF n] Let_def to_after_text
        saveEmail_throws)
qed

lemma unavailable_simple:
  "unavailable_error (json_response 500 (JObj [(ascii ''error'', JStr msg_d1_not_configured)]))"
  "unavailable_error (json_response 500
     (JObj [(ascii ''success'', JBool False), (ascii ''error'', JStr msg_d1_not_configured)]))"
  by (simp_all add: unavailable_error_def json_response_def ascii_def)

lemma not_unavailable_save:
  "\<not> unavailable_error (json_response 500 (JObj [(ascii ''error'', JStr (msg_save_failed m))]))"
  by (simp add: unavailable_error_def json_response_def msg_save_failed_def
      msg_d1_not_configured_def)

lemma getEmails_unconfigured:
  assumes "searchParams_get request ''address'' = Some address" and "address \<noteq> []"
    and "DB env = None"
  shows "getEmails lc request env db =
           (json_response 500 (JObj [(ascii ''error'', JStr msg_d1_not_configured)]), db)"
  using assms by (simp add: getEmails_def)

lemma clearEmails_unconfigured:
  assumes "searchParams_get request ''address'' = Some address" and "address \<noteq> []"
    and "DB env = None"
  shows "clearEmails lc request env db =
           (json_response 500
              (JObj [(ascii ''success'', JBool False),
                     (ascii ''error'', JStr msg_d1_not_configured)]), db)"
  using assms by (simp add: clearEmails_def)

lemma clearAllEmails_unconfigured:
  assumes "DB env = None"
  shows "clearAllEmails request env now db =
           (json_response 500
              (JObj [(ascii ''success'', JBool False),
                     (ascii ''error'', JStr msg_d1_not_configured)]), db)"
  using assms by (simp add: clearAllEmails_def)

lemma getEmails_configured_distinct:
  assumes "DB env = Some b"
  shows "\<not> unavailable_error (fst (getEmails lc request env db))"
  using assms
  by (simp add: getEmails_def unavailable_error_def json_response_def Let_def ascii_def
      msg_d1_not_configured_def msg_cannot_get_emails_def
      split: option.splits sum.splits prod.splits)

lemma clearEmails_configured_distinct:
  assumes "DB env = Some b"
  shows "\<not> unavailable_error (fst (clearEmails lc request env db))"
  using assms
  by (simp add: clearEmails_def unavailable_error_def json_response_def Let_def ascii_def
      msg_d1_not_configured_def msg_clear_failed_def
      split: option.splits sum.splits prod.splits)

lemma clearAllEmails_configured_distinct:
  assumes "DB env = Some b"
  shows "\<not> unavailable_error (fst (clearAllEmails request env now db))"
  using assms
  by (simp add: clearAllEmails_def unavailable_error_def json_response_def Let_def ascii_def
      msg_d1_not_configured_def msg_clear_expired_failed_def
      split: option.splits sum.splits prod.splits)

text \<open>
  Claim C7. Take an ingest request that passes the field check with a string \<open>to\<close>, and
  a list or clear request that carries an address. When the D1 binding is absent,
  \<open>handleNewEmail\<close>, \<open>getEmails\<close>, \<open>clearEmails\<close> and \<open>clearAllEmails\<close> each answer
  500 with the error "D1 database not configured" and return the database untouched,
  whatever its content and whatever the next statement would have done. When the
  binding is present none of them gives a response of that failure mode, so it is
  distinct from a failed query.
\<close>

theorem store_not_configured:
  assumes "json_body ingest = Inr email"
    and "truthy (read_prop email ''from'')" and "read_prop email ''to'' = Some (JStr s)"
    and "s \<noteq> []" and "truthy (read_prop email ''subject'')"
    and "searchParams_get request ''address'' = Some address" and "address \<noteq> []"
  shows "(DB env = None \<longrightarrow>
            handleNewEmail lc ingest env now db =
              (json_response 500 (JObj [(ascii ''error'', JStr msg_d1_not_configured)]), db)
            \<and> getEmails lc request env db =
              (json_response 500 (JObj [(ascii ''error'', JStr msg_d1_not_configured)]), db)
            \<and> clearEmails lc request env db =
              (json_response 500
                 (JObj [(ascii ''success'', JBool False),
                        (ascii ''error'', JStr msg_d1_not_configured)]), db)
            \<and> clearAllEmails sweep env now db =
              (json_response 500
                 (JObj [(ascii ''success'', JBool False),
                        (ascii ''error'', JStr msg_d1_not_configured)]), db))
         \<and> (unavailable_error (fst (handleNewEmail lc ingest env now db)) \<longleftrightarrow> DB env = None)
         \<and> (unavailable_error (fst (getEmails lc request env db)) \<longleftrightarrow> DB env = None)
         \<and> (unavailable_error (fst (clearEmails lc request env db)) \<longleftrightarrow> DB env = None)
         \<and> (unavailable_error (fst (clearAllEmails sweep env now db)) \<longleftrightarrow> DB env = None)"
proof (cases "DB env = None")
  case True
  show ?thesis
    using True handleNewEmail_unconfigured [OF assms(1-5) True]
      getEmails_unconfigured [OF assms(6,7) True] clearEmails_unconfigured [OF assms(6,7) True]
      clearAllEmails_unconfigured [OF True] unavailable_simple
    by simp
next
  case False
  then obtain b where b: "DB env = Some b" by auto
  show ?thesis
    using b handleNewEmail_configured_string [OF assms(1-5) False] not_unavailable_save
      getEmails_configured_distinct [OF b] clearEmails_configured_distinct [OF b]
      clearAllEmails_configured_distinct [OF b]
    by simp
qed

theorem store_not_configured_witness:
  "\<forall>lc.
   json_body (req_ingest email_plain) = Inr email_plain
   \<and> truthy (read_prop email_plain ''from'')
   \<and> read_prop email_plain ''to'' = Some (JStr (ascii ''user@foo.com''))
   \<and> ascii ''user@foo.com'' \<noteq> []
   \<and> truthy (read_prop email_plain ''subject'')
   \<and> searchParams_get (req_clear (ascii ''user@foo.com'')) ''address''
        = Some (ascii ''user@foo.com'')
   \<and> DB env0 = None
   \<and> handleNewEmail lc (req_ingest email_plain) env0 now0 db_faulty =
        (json_response 500 (JObj [(ascii ''error'', JStr msg_d1_not_configured)]), db_faulty)
   \<and> getEmails lc (req_clear (ascii ''user@foo.com'')) env0 db_faulty =
        (json_response 500 (JObj [(ascii ''error'', JStr msg_d1_not_configured)]), db_faulty)
   \<and> clearEmails lc (req_clear (ascii ''user@foo.com'')) env0 db_faulty =
        (json_response 500
           (JObj [(ascii ''success'', JBool False),
                  (ascii ''error'', JStr msg_d1_not_configured)]), db_faulty)
   \<and> clearAllEmails None env0 now0 db_faulty =
        (json_response 500
           (JObj [(ascii ''success'', JBool False),
                  (ascii ''error'', JStr msg_d1_not_configured)]), db_faulty)
   \<and> unavailable_error (fst (clearAllEmails None env0 now0 db_faulty))
   \<and> \<not> unavailable_error (fst (clearAllEmails None env_db now0 db_faulty))" (is "\<forall>lc. ?W lc")
proof
  fix lc
  have h1: "json_body (req_ingest email_plain) = Inr email_plain" by (simp add: req_ingest_def)
  have h2: "truthy (read_prop email_plain ''from'')" by (simp add: email_plain_def ascii_def)
  have h3: "read_prop email_plain ''to'' = Some (JStr (ascii ''user@foo.com''))"
    by (simp add: email_plain_def ascii_def)
  have h4: "ascii ''user@foo.com'' \<noteq> []" by (simp add: ascii_def)
  have h5: "truthy (read_prop email_plain ''subject'')" by (simp add: email_plain_def ascii_def)
  have h6: "searchParams_get (req_clear (ascii ''user@foo.com'')) ''address''
              = Some (ascii ''user@foo.com'')"
    by (simp add: searchParams_get_def req_clear_def)
  have e0: "DB env0 = None" by (simp add: env0_def)
  have e1: "DB env_db \<noteq> None" by (simp add: env_db_def)
  show "?W lc"
    using store_not_configured [OF h1 h2 h3 h4 h5 h6 h4, where lc = lc and env = env0 and now = now0
        and db = db_faulty and sweep = None]
      store_not_configured [OF h1 h2 h3 h4 h5 h6 h4, where lc = lc and env = env_db and now = now0
        and db = db_faulty and sweep = None]
      h1 h2 h3 h4 h5 h6 e0 e1
    by (simp add: unavailable_simple)
qed

section \<open>Ingestion on concrete messages\<close>

text \<open>
  Claim C1, evaluated on the code. Ingesting a message addressed to
  \<open>"  User@Foo.com "\<close> with the store configured answers 500, because \<open>saveEmail\<close>
  throws at \<open>extractEmailData\<close>; nothing is stored, and listing \<open>user@foo.com\<close>
  afterwards returns the empty sequence.
\<close>

theorem ingest_then_list_loses_message:
  "handleNewEmail lc (req_ingest email_norm) env_db now0 db_empty =
        (json_response 500
           (JObj [(ascii ''error'',
                   JStr (msg_save_failed (ascii ''extractEmailData is not defined'')))]),
         db_empty)
   \<and> getEmails lc (req_list (ascii ''user@foo.com'')) env_db
        (snd (handleNewEmail lc (req_ingest email_norm) env_db now0 db_empty)) =
        (json_response 200 (JArr []), db_empty)"
  by code_simp

theorem ingest_then_list_loses_message_witness:
  "\<forall>lc.
   read_prop email_norm ''to'' = Some (JStr (ascii ''  User@Foo.com ''))
   \<and> trim (toLowerCase lc (ascii ''  User@Foo.com '')) = ascii ''user@foo.com''
   \<and> truthy (read_prop email_norm ''from'') \<and> truthy (read_prop email_norm ''subject'')
   \<and> DB env_db = Some D1Database \<and> emails db_empty = []
   \<and> status (fst (handleNewEmail lc (req_ingest email_norm) env_db now0 db_empty)) = 500
   \<and> fst (getEmails lc (req_list (ascii ''user@foo.com'')) env_db
            (snd (handleNewEmail lc (req_ingest email_norm) env_db now0 db_empty))) =
        json_response 200 (JArr [])" (is "\<forall>lc. ?W lc")
proof
  fix lc
  have h1: "read_prop email_norm ''to'' = Some (JStr (ascii ''  User@Foo.com ''))"
    by (simp add: email_norm_def ascii_def)
  have h2: "trim (toLowerCase lc (ascii ''  User@Foo.com '')) = ascii ''user@foo.com''"
    by code_simp
  have h3: "truthy (read_prop email_norm ''from'')" by (simp add: email_norm_def ascii_def)
  have h4: "truthy (read_prop email_norm ''subject'')" by (simp add: email_norm_def ascii_def)
  have h5: "DB env_db = Some D1Database" by (simp add: env_db_def)
  have h6: "emails db_empty = []" by (simp add: db_empty_def)
  have s: "status (fst (handleNewEmail lc (req_ingest email_norm) env_db now0 db_empty)) = 500"
    using ingest_then_list_loses_message by (simp add: json_response_def)
  have l: "fst (getEmails lc (req_list (ascii ''user@foo.com'')) env_db
            (snd (handleNewEmail lc (req_ingest email_norm) env_db now0 db_empty))) =
        json_response 200 (JArr [])"
    using conjunct2 [OF ingest_then_list_loses_message] by (simp only: fst_conv)
  show "?W lc" by (intro conjI h1 h2 h3 h4 h5 h6 s l)
qed

text \<open>
  Claim C8, evaluated on the code. Ingesting a message with content \<open>"hello"\<close> and no
  text, and one with neither, both answer 500 and store no row, hence no text body.
\<close>

theorem ingest_stores_no_text_body:
  "handleNewEmail lc (req_ingest email_hello) env_db now0 db_empty =
        (json_response 500
           (JObj [(ascii ''error'',
                   JStr (msg_save_failed (ascii ''extractEmailData is not defined'')))]),
         db_empty)
   \<and> emails (snd (handleNewEmail lc (req_ingest email_hello) env_db now0 db_empty)) = []
   \<and> handleNewEmail lc (req_ingest email_plain) env_db now0 db_empty =
        (json_response 500
           (JObj [(ascii ''error'',
                   JStr (msg_save_failed (ascii ''extractEmailData is not defined'')))]),
         db_empty)
   \<and> emails (snd (handleNewEmail lc (req_ingest email_plain) env_db now0 db_empty)) = []" 
  by code_simp

theorem ingest_stores_no_text_body_witness:
  "\<forall>lc.
   read_prop email_hello ''text'' = None
   \<and> read_prop email_hello ''content'' = Some (JStr (ascii ''hello''))
   \<and> read_prop email_plain ''text'' = None \<and> read_prop email_plain ''content'' = None
   \<and> DB env_db = Some D1Database
   \<and> status (fst (handleNewEmail lc (req_ingest email_hello) env_db now0 db_empty)) = 500
   \<and> emails (snd (handleNewEmail lc (req_ingest email_hello) env_db now0 db_empty)) = []
   \<and> status (fst (handleNewEmail lc (req_ingest email_plain) env_db now0 db_empty)) = 500
   \<and> emails (snd (handleNewEmail lc (req_ingest email_plain) env_db now0 db_empty)) = []" (is "\<forall>lc. ?W lc")
proof
  fix lc
  have h1: "read_prop email_hello ''text'' = None" by (simp add: email_hello_def ascii_def)
  have h2: "read_prop email_hello ''content'' = Some (JStr (ascii ''hello''))"
    by (simp add: email_hello_def ascii_def)
  have h3: "read_prop email_plain ''text'' = None" by (simp add: email_plain_def ascii_def)
  have h4: "read_prop email_plain ''content'' = None" by (simp add: email_plain_def ascii_def)
  have h5: "DB env_db = Some D1Database" by (simp add: env_db_def)
  have s1: "status (fst (handleNewEmail lc (req_ingest email_hello) env_db now0 db_empty)) = 500"
    using ingest_stores_no_text_body by (simp add: json_response_def)
  have e1: "emails (snd (handleNewEmail lc (req_ingest email_hello) env_db now0 db_empty)) = []"
    using ingest_stores_no_text_body by blast
  have s2: "status (fst (handleNewEmail lc (req_ingest email_plain) env_db now0 db_empty)) = 500"
    using ingest_stores_no_text_body by (simp add: json_response_def)
  have e2: "emails (snd (handleNewEmail lc (req_ingest email_plain) env_db now0 db_empty)) = []"
    using ingest_stores_no_text_body by blast
  show "?W lc" by (intro conjI h1 h2 h3 h4 h5 s1 e1 s2 e2)
qed


section \<open>Listing\<close>

lemma getEmails_ok:
  assumes "searchParams_get request ''address'' = Some address" and "address \<noteq> []"
    and "DB env = Some b" and "fault db = NoFault"
  shows "getEmails lc request env db =
           (json_response 200
              (JArr (map (format_email (trim (toLowerCase lc address)))
                 (take 100 (sort_key (\<lambda>r. - received_at r)
                    (filter (\<lambda>r. email_address r = trim (toLowerCase lc address)) (emails db)))))),
            db)"
  using assms
  by (simp add: getEmails_def d1_exec_def sql_select_by_address_def Let_def)

lemma newest_first:
  "sorted_wrt (\<lambda>x y. received_at y \<le> received_at x) (sort_key (\<lambda>r. - received_at r) xs)"
proof -
  have "sorted (map (\<lambda>r. - received_at r) (sort_key (\<lambda>r. - received_at r) xs))"
    by (rule sorted_sort_key)
  then show ?thesis by (simp add: sorted_map)
qed

lemma take_most_recent:
  fixes M :: "row list"
  defines "S \<equiv> sort_key (\<lambda>r. - received_at r) M"
  shows "mset (take n S) \<subseteq># mset M"
    and "sorted_wrt (\<lambda>x y. received_at y \<le> received_at x) (take n S)"
    and "length (take n S) = min n (length M)"
    and "\<forall>x \<in> set (take n S). \<forall>y \<in># mset M - mset (take n S). received_at y \<le> received_at x"
    and "length M \<le> n \<longrightarrow> mset (take n S) = mset M"
proof -
  have m: "mset S = mset M" by (simp add: S_def)
  have split: "mset (take n S) + mset (drop n S) = mset M"
    using m by (metis append_take_drop_id mset_append)
  show "mset (take n S) \<subseteq># mset M"
    using split by (metis mset_subset_eq_add_left)
  have s: "sorted_wrt (\<lambda>x y. received_at y \<le> received_at x) S"
    unfolding S_def by (rule newest_first)
  then have s2: "sorted_wrt (\<lambda>x y. received_at y \<le> received_at x) (take n S @ drop n S)"
    by simp
  show "sorted_wrt (\<lambda>x y. received_at y \<le> received_at x) (take n S)"
    using s2 unfolding sorted_wrt_append by blast
  have l: "length S = length M" using m by (metis size_mset)
  show "length (take n S) = min n (length M)" using l by simp
  have d: "mset M - mset (take n S) = mset (drop n S)"
    using split by (metis add_diff_cancel_left')
  show "\<forall>x \<in> set (take n S). \<forall>y \<in># mset M - mset (take n S). received_at y \<le> received_at x"
    using s2 unfolding sorted_wrt_append d by simp
  show "length M \<le> n \<longrightarrow> mset (take n S) = mset M"
    using l m by simp
qed

lemma format_email_fields:
  "read_prop (format_email address row) ''id'' = Some (JStr (toString_nat (row_id row)))"
  "read_prop (format_email address row) ''receivedAt'' = Some (JNum (of_int (received_at row)))"
  "read_prop (format_email address row) ''from''
     = Some (case sender row of None \<Rightarrow> JNull | Some s \<Rightarrow> JStr s)"
  "read_prop (format_email address row) ''to'' = Some (JStr address)"
  "read_prop (format_email address row) ''subject''
     = Some (case subject row of None \<Rightarrow> JNull | Some s \<Rightarrow> JStr s)"
  "read_prop (format_email address row) ''text''
     = Some (JStr (case text_content row of None \<Rightarrow> [] | Some t \<Rightarrow> t))"
  "read_prop (format_email address row) ''html''
     = Some (JStr (case html_content row of None \<Rightarrow> [] | Some t \<Rightarrow> t))"
  "read_prop (format_email address row) ''content''
     = Some (case content row of None \<Rightarrow> JNull | Some s \<Rightarrow> JStr s)"
  by (simp_all add: format_email_def ascii_def json_of_text_def text_or_def
      split: option.splits)

lemma format_email_preview:
  "read_prop (format_email address row) ''preview'' =
     Some (JStr (case text_content row of
                   None \<Rightarrow>
                     (case subject row of
                        None \<Rightarrow> msg_no_content
                      | Some s \<Rightarrow> if s \<noteq> [] then s else msg_no_content)
                 | Some t \<Rightarrow>
                     if t \<noteq> [] then take 100 t
                     else (case subject row of
                             None \<Rightarrow> msg_no_content
                           | Some s \<Rightarrow> if s \<noteq> [] then s else msg_no_content)))"
  by (simp add: format_email_def ascii_def text_or_def slice0_def split: option.splits)

text \<open>
  Claim C4. For a request with a non-empty address, the binding present and the
  statement running, \<open>getEmails\<close> answers 200 with a sequence \<open>items\<close> and leaves
  the database as it was. The items correspond one to one, in order, to a sequence
  \<open>rows\<close> of stored rows: item \<open>i\<close> carries the id (in decimal), the time of
  receipt, the sender, the subject, the text, the HTML and the content of row \<open>i\<close>
  (a \<open>NULL\<close> text or HTML as the empty string, another \<open>NULL\<close> as \<open>null\<close>) and the
  normalized address as \<open>to\<close>. Every row of \<open>rows\<close> is a stored row whose
  \<open>email_address\<close> equals the lower-cased, trimmed address (with multiplicity); when
  at most 100 rows match, all of them are returned; \<open>rows\<close> is ordered by
  \<open>received_at\<close> descending; its length is the smaller of 100 and the number of
  matching rows; no matching row left out is more recent than a returned one; and with no
  matching row the result is the empty sequence, still with status 200.
\<close>

theorem getEmails_lists_newest:
  assumes "searchParams_get request ''address'' = Some address" and "address \<noteq> []"
    and "DB env = Some D1Database" and "fault db = NoFault"
  shows "\<exists>rows items.
           getEmails lc request env db = (json_response 200 (JArr items), db)
           \<and> length items = length rows
           \<and> (\<forall>i < length rows.
                 read_prop (items ! i) ''id'' = Some (JStr (toString_nat (row_id (rows ! i))))
                 \<and> read_prop (items ! i) ''receivedAt''
                     = Some (JNum (of_int (received_at (rows ! i))))
                 \<and> read_prop (items ! i) ''from''
                     = Some (case sender (rows ! i) of None \<Rightarrow> JNull | Some s \<Rightarrow> JStr s)
                 \<and> read_prop (items ! i) ''to'' = Some (JStr (trim (toLowerCase lc address)))
                 \<and> read_prop (items ! i) ''subject''
                     = Some (case subject (rows ! i) of None \<Rightarrow> JNull | Some s \<Rightarrow> JStr s)
                 \<and> read_prop (items ! i) ''text''
                     = Some (JStr (case text_content (rows ! i) of None \<Rightarrow> [] | Some t \<Rightarrow> t))
                 \<and> read_prop (items ! i) ''html''
                     = Some (JStr (case html_content (rows ! i) of None \<Rightarrow> [] | Some t \<Rightarrow> t))
                 \<and> read_prop (items ! i) ''content''
                     = Some (case content (rows ! i) of None \<Rightarrow> JNull | Some s \<Rightarrow> JStr s))
           \<and> mset rows \<subseteq>#
               mset (filter (\<lambda>r. email_address r = trim (toLowerCase lc address)) (emails db))
           \<and> (length (filter (\<lambda>r. email_address r = trim (toLowerCase lc address)) (emails db))
                 \<le> 100 \<longrightarrow>
               mset rows =
                 mset (filter (\<lambda>r. email_address r = trim (toLowerCase lc address)) (emails db)))
           \<and> sorted_wrt (\<lambda>x y. received_at y \<le> received_at x) rows
           \<and> length rows =
               min 100
                 (length (filter (\<lambda>r. email_address r = trim (toLowerCase lc address)) (emails db)))
           \<and> (\<forall>x \<in> set rows.
                 \<forall>y \<in># mset (filter (\<lambda>r. email_address r = trim (toLowerCase lc address))
                                (emails db)) - mset rows.
                   received_at y \<le> received_at x)
           \<and> (filter (\<lambda>r. email_address r = trim (toLowerCase lc address)) (emails db) = []
                 \<longrightarrow> items = [])"
proof -
  define a where "a = trim (toLowerCase lc address)"
  define M where "M = filter (\<lambda>r. email_address r = a) (emails db)"
  define rows where "rows = take 100 (sort_key (\<lambda>r. - received_at r) M)"
  define items where "items = map (format_email a) rows"
  have g: "getEmails lc request env db = (json_response 200 (JArr items), db)"
    unfolding items_def rows_def M_def a_def by (rule getEmails_ok [OF assms])
  have l: "length items = length rows" by (simp add: items_def)
  have f: "\<forall>i < length rows.
                 read_prop (items ! i) ''id'' = Some (JStr (toString_nat (row_id (rows ! i))))
                 \<and> read_prop (items ! i) ''receivedAt''
                     = Some (JNum (of_int (received_at (rows ! i))))
                 \<and> read_prop (items ! i) ''from''
                     = Some (case sender (rows ! i) of None \<Rightarrow> JNull | Some s \<Rightarrow> JStr s)
                 \<and> read_prop (items ! i) ''to'' = Some (JStr a)
                 \<and> read_prop (items ! i) ''subject''
                     = Some (case subject (rows ! i) of None \<Rightarrow> JNull | Some s \<Rightarrow> JStr s)
                 \<and> read_prop (items ! i) ''text''
                     = Some (JStr (case text_content (rows ! i) of None \<Rightarrow> [] | Some t \<Rightarrow> t))
                 \<and> read_prop (items ! i) ''html''
                     = Some (JStr (case html_content (rows ! i) of None \<Rightarrow> [] | Some t \<Rightarrow> t))
                 \<and> read_prop (items ! i) ''content''
                     = Some (case content (rows ! i) of None \<Rightarrow> JNull | Some s \<Rightarrow> JStr s)"
    by (simp add: items_def format_email_fields)
  have e: "M = [] \<longrightarrow> items = []" by (simp add: items_def rows_def)
  show ?thesis
    using g l f e take_most_recent [where n = 100 and M = M]
    unfolding rows_def [symmetric] M_def [symmetric] a_def [symmetric]
    by blast
qed


lemma getEmails_items:
  assumes "getEmails lc request env db = (r, db')" and "body r = JsonBody (JArr items)"
  shows "\<exists>address rows. set rows \<subseteq> set (emails db) \<and> items = map (format_email address) rows"
proof -
  have "\<exists>address. items = map (format_email address)
          (take 100 (sort_key (\<lambda>r. - received_at r)
             (filter (\<lambda>r. email_address r = address) (emails db))))"
    using assms
    by (auto simp add: getEmails_def d1_exec_def sql_select_by_address_def json_response_def
        Let_def split: option.splits if_splits d1_fault.splits)
  then obtain address where i: "items = map (format_email address)
          (take 100 (sort_key (\<lambda>r. - received_at r)
             (filter (\<lambda>r. email_address r = address) (emails db))))" by blast
  have "set (take 100 (sort_key (\<lambda>r. - received_at r)
             (filter (\<lambda>r. email_address r = address) (emails db)))) \<subseteq> set (emails db)"
    using set_take_subset [of 100 "sort_key (\<lambda>r. - received_at r)
             (filter (\<lambda>r. email_address r = address) (emails db))"]
    by auto
  with i show ?thesis by blast
qed

text \<open>
  Claim C9. Every element \<open>m\<close> of a listing that \<open>getEmails\<close> returns is the image
  of a stored row: it carries that row's id, text and subject, and its \<open>preview\<close> is
  the first 100 code units of the row's text when that text is non-empty, otherwise
  the subject when the subject is non-empty, otherwise the placeholder literal
  "no content". The same holds read off the element alone: the preview is the first
  100 code units of the element's own \<open>text\<close> when that is non-empty, otherwise its
  own non-empty \<open>subject\<close>, otherwise the placeholder.
\<close>

theorem getEmails_preview:
  assumes "getEmails lc request env db = (r, db')" and "body r = JsonBody (JArr items)"
    and "m \<in> set items"
  shows "\<exists>row \<in> set (emails db). \<exists>p.
           read_prop m ''id'' = Some (JStr (toString_nat (row_id row)))
           \<and> read_prop m ''text''
               = Some (JStr (case text_content row of None \<Rightarrow> [] | Some t \<Rightarrow> t))
           \<and> read_prop m ''subject''
               = Some (case subject row of None \<Rightarrow> JNull | Some s \<Rightarrow> JStr s)
           \<and> read_prop m ''preview'' = Some (JStr p)
           \<and> (\<forall>t. text_content row = Some t \<and> t \<noteq> [] \<longrightarrow> p = take 100 t)
           \<and> (text_content row = None \<or> text_content row = Some [] \<longrightarrow>
                (\<forall>s. subject row = Some s \<and> s \<noteq> [] \<longrightarrow> p = s)
                \<and> (subject row = None \<or> subject row = Some [] \<longrightarrow> p = msg_no_content))
           \<and> (\<forall>t. read_prop m ''text'' = Some (JStr t) \<and> t \<noteq> [] \<longrightarrow> p = take 100 t)
           \<and> (read_prop m ''text'' = Some (JStr []) \<longrightarrow>
                (\<forall>s. read_prop m ''subject'' = Some (JStr s) \<and> s \<noteq> [] \<longrightarrow> p = s)
                \<and> (read_prop m ''subject'' = Some JNull
                      \<or> read_prop m ''subject'' = Some (JStr []) \<longrightarrow> p = msg_no_content))"
proof -
  obtain address rows where rows: "set rows \<subseteq> set (emails db)"
      "items = map (format_email address) rows"
    using getEmails_items [OF assms(1,2)] by blast
  then obtain row where row: "row \<in> set (emails db)" "m = format_email address row"
    using assms(3) by auto
  show ?thesis
    using row(1) unfolding row(2) format_email_fields format_email_preview
    by (intro bexI [of _ row]) (auto split: option.splits)
qed

lemma toString_nat_nonempty: "toString_nat n \<noteq> []"
  by (subst toString_nat.simps) simp

lemma digit_inj:
  assumes "a < 10" and "b < 10" and "(of_nat (48 + a) :: 16 word) = of_nat (48 + b)"
  shows "a = b"
proof -
  have p16: "(2::nat) ^ LENGTH(16) = 65536" by simp
  have la: "48 + a < 2 ^ LENGTH(16)" using assms(1) unfolding p16 by linarith
  have lb: "48 + b < 2 ^ LENGTH(16)" using assms(2) unfolding p16 by linarith
  have ua: "unat (of_nat (48 + a) :: 16 word) = 48 + a"
    using la by (rule of_nat_inverse [OF refl])
  have ub: "unat (of_nat (48 + b) :: 16 word) = 48 + b"
    using lb by (rule of_nat_inverse [OF refl])
  have "48 + a = unat (of_nat (48 + a) :: 16 word)" using ua by (rule sym)
  also have "\<dots> = unat (of_nat (48 + b) :: 16 word)" using assms(3) by (rule arg_cong)
  also have "\<dots> = 48 + b" by (rule ub)
  finally show ?thesis by linarith
qed

lemma toString_nat_inj: "toString_nat m = toString_nat n \<Longrightarrow> m = n"
proof (induction m arbitrary: n rule: toString_nat.induct)
  case (1 m)
  show ?case
  proof (cases "m < 10")
    case True
    then have m: "toString_nat m = [of_nat (48 + m)]" by (subst toString_nat.simps) simp
    show ?thesis
    proof (cases "n < 10")
      case T2: True
      then have "toString_nat n = [of_nat (48 + n)]" by (subst toString_nat.simps) simp
      then show ?thesis using m 1(2) True T2 digit_inj by simp
    next
      case False
      then have "toString_nat n = toString_nat (n div 10) @ [of_nat (48 + n mod 10)]"
        by (subst toString_nat.simps) simp
      then show ?thesis using m 1(2) toString_nat_nonempty [of "n div 10"] by simp
    qed
  next
    case False
    then have m: "toString_nat m = toString_nat (m div 10) @ [of_nat (48 + m mod 10)]"
      by (subst toString_nat.simps) simp
    show ?thesis
    proof (cases "n < 10")
      case True
      then have "toString_nat n = [of_nat (48 + n)]" by (subst toString_nat.simps) simp
      then show ?thesis using m 1(2) toString_nat_nonempty [of "m div 10"] by simp
    next
      case F2: False
      then have n: "toString_nat n = toString_nat (n div 10) @ [of_nat (48 + n mod 10)]"
        by (subst toString_nat.simps) simp
      from m n 1(2) have a: "toString_nat (m div 10) = toString_nat (n div 10)"
        and b: "(of_nat (48 + m mod 10) :: 16 word) = of_nat (48 + n mod 10)" by simp_all
      have "m div 10 = n div 10" using 1(1) [OF False a] .
      moreover have "m mod 10 = n mod 10" using digit_inj [OF _ _ b] by simp
      ultimately show ?thesis by (metis div_mult_mod_eq)
    qed
  qed
qed

lemma msg_deleted_inj: "msg_deleted m = msg_deleted n \<Longrightarrow> m = n"
  by (simp add: msg_deleted_def toString_nat_inj)

lemma msg_deleted_expired_inj: "msg_deleted_expired m = msg_deleted_expired n \<Longrightarrow> m = n"
  by (simp add: msg_deleted_expired_def toString_nat_inj)


section \<open>Clearing and the retention sweep\<close>

lemma clearEmails_ok:
  assumes "searchParams_get request ''address'' = Some address" and "address \<noteq> []"
    and "DB env = Some b" and "fault db = NoFault"
  shows "clearEmails lc request env db =
           (json_response 200
              (JObj [(ascii ''success'', JBool True),
                     (ascii ''message'',
                      JStr (msg_deleted
                        (length (filter (\<lambda>r. email_address r = trim (toLowerCase lc address))
                                   (emails db)))))]),
            db\<lparr>emails := filter (\<lambda>r. \<not> email_address r = trim (toLowerCase lc address))
                              (emails db)\<rparr>)"
  using assms
  by (simp add: clearEmails_def d1_exec_def sql_delete_by_address_def deleted_count_def Let_def)

lemma clearAllEmails_ok:
  assumes "DB env = Some b" and "fault db = NoFault"
  shows "clearAllEmails request env now db =
           (json_response 200
              (JObj [(ascii ''success'', JBool True),
                     (ascii ''message'',
                      JStr (msg_deleted_expired
                        (length (filter (\<lambda>r. received_at r < now - 86400000) (emails db)))))]),
            db\<lparr>emails := filter (\<lambda>r. \<not> received_at r < now - 86400000) (emails db)\<rparr>)"
  using assms
  by (simp add: clearAllEmails_def d1_exec_def sql_delete_older_def deleted_count_def Let_def)

lemma length_filter_split:
  "length (filter P xs) + length (filter (\<lambda>x. \<not> P x) xs) = length xs"
  by (induction xs) auto

text \<open>
  Claim C5. With the binding present and the statement running, \<open>clearAllEmails\<close>
  answers 200, keeps exactly the rows whose \<open>received_at\<close> is not below
  \<open>now - 86400000\<close> (in their order), and reports in its message the decimal count
  of the rows removed, from which the count can be read back. A row received 25 hours
  before \<open>now\<close> is gone afterwards and a row received one hour before \<open>now\<close> is
  still stored.
\<close>

theorem clearAllEmails_sweeps_expired:
  assumes "DB env = Some D1Database" and "fault db = NoFault"
  shows "\<exists>removedCount db'.
           clearAllEmails request env now db =
             (json_response 200
                (JObj [(ascii ''success'', JBool True),
                       (ascii ''message'', JStr (msg_deleted_expired removedCount))]), db')
           \<and> emails db' = filter (\<lambda>r. \<not> received_at r < now - 86400000) (emails db)
           \<and> (\<forall>r. r \<in> set (emails db') \<longleftrightarrow>
                  r \<in> set (emails db) \<and> \<not> received_at r < now - 86400000)
           \<and> removedCount = length (filter (\<lambda>r. received_at r < now - 86400000) (emails db))
           \<and> removedCount + length (emails db') = length (emails db)
           \<and> (\<forall>k. msg_deleted_expired k = msg_deleted_expired removedCount \<longrightarrow>
                  k = removedCount)
           \<and> (\<forall>r \<in> set (emails db).
                  (received_at r = now - 25 * 3600000 \<longrightarrow> r \<notin> set (emails db'))
                  \<and> (received_at r = now - 3600000 \<longrightarrow> r \<in> set (emails db')))
           \<and> next_id db' = next_id db \<and> fault db' = fault db"
proof -
  define removedCount where
    "removedCount = length (filter (\<lambda>r. received_at r < now - 86400000) (emails db))"
  define db' where
    "db' = db\<lparr>emails := filter (\<lambda>r. \<not> received_at r < now - 86400000) (emails db)\<rparr>"
  have run: "clearAllEmails request env now db =
             (json_response 200
                (JObj [(ascii ''success'', JBool True),
                       (ascii ''message'', JStr (msg_deleted_expired removedCount))]), db')"
    unfolding removedCount_def db'_def by (rule clearAllEmails_ok [OF assms])
  have e: "emails db' = filter (\<lambda>r. \<not> received_at r < now - 86400000) (emails db)"
    by (simp add: db'_def)
  have m: "\<forall>r. r \<in> set (emails db') \<longleftrightarrow>
                  r \<in> set (emails db) \<and> \<not> received_at r < now - 86400000"
    unfolding e by auto
  have c: "removedCount + length (emails db') = length (emails db)"
    unfolding e removedCount_def by (rule length_filter_split)
  have i: "\<forall>k. msg_deleted_expired k = msg_deleted_expired removedCount \<longrightarrow> k = removedCount"
    using msg_deleted_expired_inj by blast
  have x: "\<forall>r \<in> set (emails db).
                  (received_at r = now - 25 * 3600000 \<longrightarrow> r \<notin> set (emails db'))
                  \<and> (received_at r = now - 3600000 \<longrightarrow> r \<in> set (emails db'))"
    unfolding e by auto
  have s: "next_id db' = next_id db \<and> fault db' = fault db" by (simp add: db'_def)
  show ?thesis
    using run e m c i x s removedCount_def by blast
qed

text \<open>
  Claim C6. For a request with a non-empty address, the binding present and the
  statement running, \<open>clearEmails\<close> answers 200, removes exactly the rows of the
  lower-cased, trimmed address and reports their count in its message; the count is
  positive when such a row existed. A second call on the resulting database answers
  200 again, reports 0 and changes nothing.
\<close>

theorem clearEmails_idempotent:
  assumes "searchParams_get request ''address'' = Some address" and "address \<noteq> []"
    and "DB env = Some D1Database" and "fault db = NoFault"
  shows "\<exists>removedCount db'.
           clearEmails lc request env db =
             (json_response 200
                (JObj [(ascii ''success'', JBool True),
                       (ascii ''message'', JStr (msg_deleted removedCount))]), db')
           \<and> removedCount =
               length (filter (\<lambda>r. email_address r = trim (toLowerCase lc address)) (emails db))
           \<and> emails db' =
               filter (\<lambda>r. email_address r \<noteq> trim (toLowerCase lc address)) (emails db)
           \<and> removedCount + length (emails db') = length (emails db)
           \<and> (\<forall>k. msg_deleted k = msg_deleted removedCount \<longrightarrow> k = removedCount)
           \<and> ((\<exists>r \<in> set (emails db). email_address r = trim (toLowerCase lc address))
                 \<longrightarrow> 0 < removedCount)
           \<and> clearEmails lc request env db' =
             (json_response 200
                (JObj [(ascii ''success'', JBool True),
                       (ascii ''message'', JStr (msg_deleted 0))]), db')"
proof -
  define a where "a = trim (toLowerCase lc address)"
  define removedCount where "removedCount = length (filter (\<lambda>r. email_address r = a) (emails db))"
  define db' where "db' = db\<lparr>emails := filter (\<lambda>r. \<not> email_address r = a) (emails db)\<rparr>"
  have run: "clearEmails lc request env db =
             (json_response 200
                (JObj [(ascii ''success'', JBool True),
                       (ascii ''message'', JStr (msg_deleted removedCount))]), db')"
    unfolding removedCount_def db'_def a_def by (rule clearEmails_ok [OF assms])
  have e: "emails db' = filter (\<lambda>r. email_address r \<noteq> a) (emails db)"
    by (simp add: db'_def)
  have c: "removedCount + length (emails db') = length (emails db)"
    unfolding e removedCount_def by (rule length_filter_split)
  have i: "\<forall>k. msg_deleted k = msg_deleted removedCount \<longrightarrow> k = removedCount"
    using msg_deleted_inj by blast
  have p: "(\<exists>r \<in> set (emails db). email_address r = a) \<longrightarrow> 0 < removedCount"
    unfolding removedCount_def by (auto simp add: filter_empty_conv)
  have f': "fault db' = NoFault" using assms(4) by (simp add: db'_def)
  have none: "filter (\<lambda>r. email_address r = a) (emails db') = []"
    unfolding e by (simp add: filter_empty_conv)
  have same: "db'\<lparr>emails := filter (\<lambda>r. \<not> email_address r = a) (emails db')\<rparr> = db'"
    by (simp add: db'_def)
  have again: "clearEmails lc request env db' =
             (json_response 200
                (JObj [(ascii ''success'', JBool True),
                       (ascii ''message'', JStr (msg_deleted 0))]), db')"
    using clearEmails_ok [OF assms(1,2,3) f', where lc = lc] none same unfolding a_def [symmetric] by simp
  show ?thesis
    using run e c i p again removedCount_def unfolding a_def by blast
qed


section \<open>The listing, clearing and sweep on example databases\<close>

lemma normalize_example:
  "trim (toLowerCase lc (ascii ''  User@Foo.com '')) = ascii ''user@foo.com''"
  "trim (toLowerCase lc (ascii ''user@foo.com'')) = ascii ''user@foo.com''"
  by code_simp+

lemma address_param:
  "searchParams_get (req_list a) ''address'' = Some a"
  "searchParams_get (req_clear a) ''address'' = Some a"
  by (simp_all add: searchParams_get_def req_list_def req_clear_def)

lemma db_150_all_match:
  "filter (\<lambda>r. email_address r = ascii ''user@foo.com'') (emails db_150) = emails db_150"
  by (simp add: db_150_def row_numbered_def filter_map o_def)

theorem getEmails_lists_newest_witness:
  "\<forall>lc.
   searchParams_get (req_list (ascii ''user@foo.com'')) ''address'' = Some (ascii ''user@foo.com'')
   \<and> ascii ''user@foo.com'' \<noteq> [] \<and> DB env_db = Some D1Database \<and> fault db_150 = NoFault
   \<and> length (emails db_150) = 150
   \<and> (\<exists>rows items.
         getEmails lc (req_list (ascii ''user@foo.com'')) env_db db_150 =
           (json_response 200 (JArr items), db_150)
         \<and> length items = 100 \<and> length rows = 100
         \<and> (\<forall>i < length rows.
               read_prop (items ! i) ''id'' = Some (JStr (toString_nat (row_id (rows ! i))))
               \<and> read_prop (items ! i) ''receivedAt''
                   = Some (JNum (of_int (received_at (rows ! i)))))
         \<and> sorted_wrt (\<lambda>x y. received_at y \<le> received_at x) rows
         \<and> mset rows \<subseteq># mset (emails db_150)
         \<and> (\<forall>x \<in> set rows. \<forall>y \<in># mset (emails db_150) - mset rows.
               received_at y \<le> received_at x))
   \<and> (\<exists>rows items.
         getEmails lc (req_list (ascii ''  User@Foo.com '')) env_db db_four =
           (json_response 200 (JArr items), db_four)
         \<and> length items = length rows
         \<and> mset rows = mset [row_old, row_new])
   \<and> (\<exists>items.
         getEmails lc (req_list (ascii ''nobody@foo.com'')) env_db db_four =
           (json_response 200 (JArr items), db_four)
         \<and> items = [])
   \<and> getEmails lc (req_list (ascii ''  User@Foo.com '')) env_db db_four =
        (json_response 200 (JArr [item_new, item_old]), db_four)
   \<and> getEmails lc (req_list (ascii ''nobody@foo.com'')) env_db db_four =
        (json_response 200 (JArr []), db_four)
   \<and> toString_nat 149 = ascii ''149''" (is "\<forall>lc. ?W lc")
proof
  fix lc
  have h1: "searchParams_get (req_list (ascii ''user@foo.com'')) ''address''
              = Some (ascii ''user@foo.com'')"
    by (rule address_param)
  have h2: "ascii ''user@foo.com'' \<noteq> []" by (simp add: ascii_def)
  have h3: "DB env_db = Some D1Database" by (simp add: env_db_def)
  have h4: "fault db_150 = NoFault" by (simp add: db_150_def)
  have n: "length (emails db_150) = 150" by (simp add: db_150_def)
  note T = getEmails_lists_newest [OF h1 h2 h3 h4, where lc = lc,
      unfolded normalize_example db_150_all_match n]
  from T obtain rows items where
    r1: "getEmails lc (req_list (ascii ''user@foo.com'')) env_db db_150 =
           (json_response 200 (JArr items), db_150)"
    and r2: "length items = length rows"
    and r3: "\<forall>i < length rows.
               read_prop (items ! i) ''id'' = Some (JStr (toString_nat (row_id (rows ! i))))
               \<and> read_prop (items ! i) ''receivedAt''
                   = Some (JNum (of_int (received_at (rows ! i))))"
    and r4: "mset rows \<subseteq># mset (emails db_150)"
    and r5: "sorted_wrt (\<lambda>x y. received_at y \<le> received_at x) rows"
    and r6: "length rows = min 100 150"
    and r7: "\<forall>x \<in> set rows. \<forall>y \<in># mset (emails db_150) - mset rows.
               received_at y \<le> received_at x"
    by blast
  have r6': "length rows = 100" using r6 by simp
  have r2': "length items = 100" using r2 r6' by simp
  have t: "\<exists>rows items.
         getEmails lc (req_list (ascii ''user@foo.com'')) env_db db_150 =
           (json_response 200 (JArr items), db_150)
         \<and> length items = 100 \<and> length rows = 100
         \<and> (\<forall>i < length rows.
               read_prop (items ! i) ''id'' = Some (JStr (toString_nat (row_id (rows ! i))))
               \<and> read_prop (items ! i) ''receivedAt''
                   = Some (JNum (of_int (received_at (rows ! i)))))
         \<and> sorted_wrt (\<lambda>x y. received_at y \<le> received_at x) rows
         \<and> mset rows \<subseteq># mset (emails db_150)
         \<and> (\<forall>x \<in> set rows. \<forall>y \<in># mset (emails db_150) - mset rows.
               received_at y \<le> received_at x)"
    by (intro exI [of _ rows] exI [of _ items] conjI r1 r2' r6' r3 r5 r4 r7)
  have g1: "searchParams_get (req_list (ascii ''  User@Foo.com '')) ''address''
              = Some (ascii ''  User@Foo.com '')"
    by (rule address_param)
  have g2: "ascii ''  User@Foo.com '' \<noteq> []" by (simp add: ascii_def)
  have g4: "fault db_four = NoFault" by (simp add: db_four_def)
  have m4: "filter (\<lambda>r. email_address r = ascii ''user@foo.com'') (emails db_four)
              = [row_old, row_new]"
    by code_simp
  have l4: "length [row_old, row_new] \<le> 100" by simp
  note T4 = getEmails_lists_newest [OF g1 g2 h3 g4, where lc = lc,
      unfolded normalize_example m4]
  from T4 l4 obtain rows4 items4 where
    q1: "getEmails lc (req_list (ascii ''  User@Foo.com '')) env_db db_four =
           (json_response 200 (JArr items4), db_four)"
    and q2: "length items4 = length rows4"
    and q3: "mset rows4 = mset [row_old, row_new]"
    by blast
  have t4: "\<exists>rows items.
         getEmails lc (req_list (ascii ''  User@Foo.com '')) env_db db_four =
           (json_response 200 (JArr items), db_four)
         \<and> length items = length rows
         \<and> mset rows = mset [row_old, row_new]"
    by (intro exI [of _ rows4] exI [of _ items4] conjI q1 q2 q3)
  have k1: "searchParams_get (req_list (ascii ''nobody@foo.com'')) ''address''
              = Some (ascii ''nobody@foo.com'')"
    by (rule address_param)
  have k2: "ascii ''nobody@foo.com'' \<noteq> []" by (simp add: ascii_def)
  have kn: "trim (toLowerCase lc (ascii ''nobody@foo.com'')) = ascii ''nobody@foo.com''"
    by code_simp
  have m0: "filter (\<lambda>r. email_address r = ascii ''nobody@foo.com'') (emails db_four) = []"
    by code_simp
  note T0 = getEmails_lists_newest [OF k1 k2 h3 g4, where lc = lc, unfolded kn m0]
  from T0 obtain items0 where
    z1: "getEmails lc (req_list (ascii ''nobody@foo.com'')) env_db db_four =
           (json_response 200 (JArr items0), db_four)"
    and z2: "items0 = []"
    by blast
  have t0: "\<exists>items.
         getEmails lc (req_list (ascii ''nobody@foo.com'')) env_db db_four =
           (json_response 200 (JArr items), db_four)
         \<and> items = []"
    by (intro exI [of _ items0] conjI z1 z2)
  have c1: "getEmails lc (req_list (ascii ''  User@Foo.com '')) env_db db_four =
        (json_response 200 (JArr [item_new, item_old]), db_four)"
    by code_simp
  have c2: "getEmails lc (req_list (ascii ''nobody@foo.com'')) env_db db_four =
        (json_response 200 (JArr []), db_four)"
    by code_simp
  have c3: "toString_nat 149 = ascii ''149''" by code_simp
  show "?W lc" by (intro conjI h1 h2 h3 h4 n t t4 t0 c1 c2 c3)
qed

theorem getEmails_preview_witness:
  "\<forall>lc.
   getEmails lc (req_list (ascii ''other@foo.com'')) env_db db_four =
     (json_response 200 (JArr [item_blank, item_long]), db_four)
   \<and> body (json_response 200 (JArr [item_blank, item_long]))
       = JsonBody (JArr [item_blank, item_long])
   \<and> item_long \<in> set [item_blank, item_long]
   \<and> (\<exists>row \<in> set (emails db_four). \<exists>p.
           read_prop item_long ''id'' = Some (JStr (toString_nat (row_id row)))
           \<and> read_prop item_long ''text''
               = Some (JStr (case text_content row of None \<Rightarrow> [] | Some t \<Rightarrow> t))
           \<and> read_prop item_long ''subject''
               = Some (case subject row of None \<Rightarrow> JNull | Some s \<Rightarrow> JStr s)
           \<and> read_prop item_long ''preview'' = Some (JStr p)
           \<and> (\<forall>t. text_content row = Some t \<and> t \<noteq> [] \<longrightarrow> p = take 100 t)
           \<and> (text_content row = None \<or> text_content row = Some [] \<longrightarrow>
                (\<forall>s. subject row = Some s \<and> s \<noteq> [] \<longrightarrow> p = s)
                \<and> (subject row = None \<or> subject row = Some [] \<longrightarrow> p = msg_no_content))
           \<and> (\<forall>t. read_prop item_long ''text'' = Some (JStr t) \<and> t \<noteq> [] \<longrightarrow> p = take 100 t)
           \<and> (read_prop item_long ''text'' = Some (JStr []) \<longrightarrow>
                (\<forall>s. read_prop item_long ''subject'' = Some (JStr s) \<and> s \<noteq> [] \<longrightarrow> p = s)
                \<and> (read_prop item_long ''subject'' = Some JNull
                      \<or> read_prop item_long ''subject'' = Some (JStr []) \<longrightarrow>
                    p = msg_no_content)))
   \<and> read_prop item_long ''text'' = Some (JStr (replicate 120 0x78))
   \<and> read_prop item_long ''preview'' = Some (JStr (replicate 100 0x78))
   \<and> read_prop item_blank ''text'' = Some (JStr [])
   \<and> read_prop item_blank ''subject'' = Some JNull
   \<and> read_prop item_blank ''preview'' = Some (JStr msg_no_content)
   \<and> getEmails lc (req_list (ascii ''user@foo.com'')) env_db db_four =
        (json_response 200 (JArr [item_new, item_old]), db_four)
   \<and> read_prop item_new ''text'' = Some (JStr [])
   \<and> read_prop item_new ''subject'' = Some (JStr (ascii ''second''))
   \<and> read_prop item_new ''preview'' = Some (JStr (ascii ''second''))" (is "\<forall>lc. ?W lc")
proof
  fix lc
  have h1: "getEmails lc (req_list (ascii ''other@foo.com'')) env_db db_four =
     (json_response 200 (JArr [item_blank, item_long]), db_four)"
    by code_simp
  have h2: "body (json_response 200 (JArr [item_blank, item_long]))
       = JsonBody (JArr [item_blank, item_long])"
    by (simp add: json_response_def)
  have h3: "item_long \<in> set [item_blank, item_long]" by simp
  have c1: "read_prop item_long ''text'' = Some (JStr (replicate 120 0x78))"
    by (simp add: item_long_def ascii_def)
  have c2: "read_prop item_long ''preview'' = Some (JStr (replicate 100 0x78))"
    by (simp add: item_long_def ascii_def)
  have c3: "read_prop item_blank ''text'' = Some (JStr [])"
    by (simp add: item_blank_def ascii_def)
  have c4: "read_prop item_blank ''subject'' = Some JNull"
    by (simp add: item_blank_def ascii_def)
  have c5: "read_prop item_blank ''preview'' = Some (JStr msg_no_content)"
    by (simp add: item_blank_def ascii_def)
  have c6: "getEmails lc (req_list (ascii ''user@foo.com'')) env_db db_four =
        (json_response 200 (JArr [item_new, item_old]), db_four)"
    by code_simp
  have c7: "read_prop item_new ''text'' = Some (JStr [])"
    by (simp add: item_new_def ascii_def)
  have c8: "read_prop item_new ''subject'' = Some (JStr (ascii ''second''))"
    by (simp add: item_new_def ascii_def)
  have c9: "read_prop item_new ''preview'' = Some (JStr (ascii ''second''))"
    by (simp add: item_new_def ascii_def)
  show "?W lc"
    by (intro conjI h1 h2 h3 c1 c2 c3 c4 c5 c6 c7 c8 c9 getEmails_preview [OF h1 h2 h3])
qed

theorem clearAllEmails_sweeps_expired_witness:
  "\<forall>lc.
   DB env_db = Some D1Database \<and> fault db_four = NoFault
   \<and> received_at row_old = now0 - 25 * 3600000 \<and> received_at row_new = now0 - 3600000
   \<and> (\<exists>db'. clearAllEmails None env_db now0 db_four =
             (json_response 200
                (JObj [(ascii ''success'', JBool True),
                       (ascii ''message'', JStr (msg_deleted_expired 1))]), db')
         \<and> emails db' = [row_new, row_blank, row_long]
         \<and> getEmails lc (req_list (ascii ''user@foo.com'')) env_db db' =
             (json_response 200 (JArr [format_email (ascii ''user@foo.com'') row_new]), db'))" (is "\<forall>lc. ?W lc")
proof
  fix lc
  have h1: "DB env_db = Some D1Database" by (simp add: env_db_def)
  have h2: "fault db_four = NoFault" by (simp add: db_four_def)
  have r1: "received_at row_old = now0 - 25 * 3600000" by (simp add: row_old_def)
  have r2: "received_at row_new = now0 - 3600000" by (simp add: row_new_def)
  have f: "filter (\<lambda>r. \<not> received_at r < now0 - 86400000) (emails db_four)
             = [row_new, row_blank, row_long]"
    by code_simp
  have k: "length (filter (\<lambda>r. received_at r < now0 - 86400000) (emails db_four)) = 1"
    by code_simp
  obtain removedCount db' where
    run: "clearAllEmails None env_db now0 db_four =
             (json_response 200
                (JObj [(ascii ''success'', JBool True),
                       (ascii ''message'', JStr (msg_deleted_expired removedCount))]), db')"
    and e: "emails db' = filter (\<lambda>r. \<not> received_at r < now0 - 86400000) (emails db_four)"
    and c: "removedCount = length (filter (\<lambda>r. received_at r < now0 - 86400000) (emails db_four))"
    and s: "next_id db' = next_id db_four" "fault db' = fault db_four"
    using clearAllEmails_sweeps_expired [OF h1 h2, of None now0] by blast
  have d: "db' = db_four\<lparr>emails := [row_new, row_blank, row_long]\<rparr>"
    using e s unfolding f by simp
  have l: "getEmails lc (req_list (ascii ''user@foo.com'')) env_db
             (db_four\<lparr>emails := [row_new, row_blank, row_long]\<rparr>) =
             (json_response 200 (JArr [format_email (ascii ''user@foo.com'') row_new]),
              db_four\<lparr>emails := [row_new, row_blank, row_long]\<rparr>)"
    by code_simp
  have "clearAllEmails None env_db now0 db_four =
             (json_response 200
                (JObj [(ascii ''success'', JBool True),
                       (ascii ''message'', JStr (msg_deleted_expired 1))]), db')
         \<and> emails db' = [row_new, row_blank, row_long]
         \<and> getEmails lc (req_list (ascii ''user@foo.com'')) env_db db' =
             (json_response 200 (JArr [format_email (ascii ''user@foo.com'') row_new]), db')"
    using run e c l unfolding f k d by simp
  then show "?W lc" using h1 h2 r1 r2 by blast
qed

theorem clearEmails_idempotent_witness:
  "\<forall>lc.
   searchParams_get (req_clear (ascii ''  User@Foo.com '')) ''address''
     = Some (ascii ''  User@Foo.com '')
   \<and> ascii ''  User@Foo.com '' \<noteq> [] \<and> DB env_db = Some D1Database \<and> fault db_four = NoFault
   \<and> (\<exists>db'. clearEmails lc (req_clear (ascii ''  User@Foo.com '')) env_db db_four =
             (json_response 200
                (JObj [(ascii ''success'', JBool True),
                       (ascii ''message'', JStr (msg_deleted 2))]), db')
         \<and> emails db' = [row_blank, row_long]
         \<and> clearEmails lc (req_clear (ascii ''  User@Foo.com '')) env_db db' =
             (json_response 200
                (JObj [(ascii ''success'', JBool True),
                       (ascii ''message'', JStr (msg_deleted 0))]), db'))" (is "\<forall>lc. ?W lc")
proof
  fix lc
  have h1: "searchParams_get (req_clear (ascii ''  User@Foo.com '')) ''address''
     = Some (ascii ''  User@Foo.com '')"
    by (rule address_param)
  have h2: "ascii ''  User@Foo.com '' \<noteq> []" by (simp add: ascii_def)
  have h3: "DB env_db = Some D1Database" by (simp add: env_db_def)
  have h4: "fault db_four = NoFault" by (simp add: db_four_def)
  have f: "filter (\<lambda>r. email_address r \<noteq> ascii ''user@foo.com'') (emails db_four)
             = [row_blank, row_long]"
    by code_simp
  have k: "length (filter (\<lambda>r. email_address r = ascii ''user@foo.com'') (emails db_four)) = 2"
    by code_simp
  obtain removedCount db' where
    run: "clearEmails lc (req_clear (ascii ''  User@Foo.com '')) env_db db_four =
             (json_response 200
                (JObj [(ascii ''success'', JBool True),
                       (ascii ''message'', JStr (msg_deleted removedCount))]), db')"
    and c: "removedCount = length (filter (\<lambda>r. email_address r
               = trim (toLowerCase lc (ascii ''  User@Foo.com ''))) (emails db_four))"
    and e: "emails db' = filter (\<lambda>r. email_address r
               \<noteq> trim (toLowerCase lc (ascii ''  User@Foo.com ''))) (emails db_four)"
    and again: "clearEmails lc (req_clear (ascii ''  User@Foo.com '')) env_db db' =
             (json_response 200
                (JObj [(ascii ''success'', JBool True),
                       (ascii ''message'', JStr (msg_deleted 0))]), db')"
    using clearEmails_idempotent [OF h1 h2 h3 h4, where lc = lc] by blast
  have "clearEmails lc (req_clear (ascii ''  User@Foo.com '')) env_db db_four =
             (json_response 200
                (JObj [(ascii ''success'', JBool True),
                       (ascii ''message'', JStr (msg_deleted 2))]), db')
         \<and> emails db' = [row_blank, row_long]
         \<and> clearEmails lc (req_clear (ascii ''  User@Foo.com '')) env_db db' =
             (json_response 200
                (JObj [(ascii ''success'', JBool True),
                       (ascii ''message'', JStr (msg_deleted 0))]), db')"
    using run c e again unfolding normalize_example f k by simp
  then show "?W lc" using h1 h2 h3 h4 by blast
qed


end
